theory Spec2Isabelle
  imports Main "HOL-Library.Word" "HOL-Library.List_Lexorder" "HOL-Library.Char_ord"
    "HOL-Library.Multiset"
begin

unbundle bit_operations_syntax

section \<open>elf/shared\_rw\_buffer.h: the record log and its double-buffered cache\<close>

text \<open>
  The header defines one class, \<open>SharedRWBuffer\<close>, with a nested \<open>Sampler\<close>. The
  embedding follows one thread through the code. What the code receives from outside is
  an argument of the model: the clock (milliseconds since the epoch; \<open>time(NULL)\<close> is its
  whole seconds), the database file behind the \<open>sqlite3\<close> handle, and whether the
  compiler builds a returned object in place.
\<close>

subsection \<open>Exceptions and undefined behaviour, as values\<close>

datatype error =
    Range_error         \<comment> \<open>\<open>std::range_error\<close>: the constructor cannot open the database\<close>
  | Invalid_argument    \<comment> \<open>\<open>std::invalid_argument\<close>: \<open>stoi\<close> finds no digits\<close>
  | Out_of_range        \<comment> \<open>\<open>std::out_of_range\<close>: \<open>stoi\<close> beyond \<open>int\<close>, \<open>vector::at\<close> beyond the size\<close>
  | Modulus_by_zero     \<comment> \<open>\<open>x % 0\<close> on unsigned integers: undefined behaviour\<close>
  | Mutex_relock        \<comment> \<open>\<open>std::mutex::lock\<close> on a mutex that is held: the call does not return\<close>
  | Column_read         \<comment> \<open>the callback reads \<open>column_texts\<close> beyond the columns it was given\<close>

subsection \<open>Decimal text: \<open>std::to_string\<close> and \<open>std::stoi\<close>\<close>

definition digit_char :: "nat \<Rightarrow> char" where
  "digit_char d = ''0123456789'' ! d"

definition digit_val :: "char \<Rightarrow> nat" where
  "digit_val c = of_char c - 48"

definition isdigit :: "char \<Rightarrow> bool" where
  "isdigit c \<longleftrightarrow> CHR ''0'' \<le> c \<and> c \<le> CHR ''9''"

definition isspace :: "char \<Rightarrow> bool" where
  "isspace c \<longleftrightarrow> c \<in> set [CHR '' '', CHR 0x09, CHR 0x0A, CHR 0x0B, CHR 0x0C, CHR 0x0D]"

text \<open>\<open>std::to_string\<close> of an unsigned integer: its decimal digits, no leading zero.\<close>

fun to_string :: "nat \<Rightarrow> string" where
  "to_string n =
     (if n < 10 then [digit_char n] else to_string (n div 10) @ [digit_char (n mod 10)])"

declare to_string.simps [simp del]

text \<open>\<open>std::to_string\<close> of a signed integer.\<close>

definition to_string_int :: "int \<Rightarrow> string" where
  "to_string_int i = (if i < 0 then CHR ''-'' # to_string (nat (- i)) else to_string (nat i))"

definition digits_value :: "string \<Rightarrow> nat" where
  "digits_value ds = foldl (\<lambda>a c. 10 * a + digit_val c) 0 ds"

text \<open>
  \<open>std::stoi\<close> (through \<open>strtol\<close>, base 10): leading white space is skipped, one sign is
  read, then the longest run of digits; what follows the digits is ignored. No digit is
  \<open>invalid_argument\<close>, a value outside \<open>int\<close> is \<open>out_of_range\<close>.
\<close>

definition stoi :: "string \<Rightarrow> error + int" where
  "stoi s =
     (let t = dropWhile isspace s;
          neg = (t \<noteq> [] \<and> hd t = CHR ''-'');
          u = (if t \<noteq> [] \<and> (hd t = CHR ''-'' \<or> hd t = CHR ''+'') then tl t else t);
          ds = takeWhile isdigit u;
          v = (if neg then - int (digits_value ds) else int (digits_value ds))
      in if ds = [] then Inl Invalid_argument
         else if v < - (2 ^ 31) \<or> 2 ^ 31 - 1 < v then Inl Out_of_range
         else Inr v)"

subsection \<open>Floating point text\<close>

text \<open>
  The two \<open>float\<close> fields are carried as their IEEE 754 bit patterns. Their way through
  decimal text (\<open>std::to_string\<close> of a float, the engine's REAL, \<open>std::stof\<close>) is
  floating point arithmetic, which this development does not compute: the three functions
  below are fixed and left unspecified, so nothing is provable about the value that comes
  back. What is computed is whether a float is finite, since \<open>to_string\<close> prints
  \<open>inf\<close> or \<open>nan\<close> for the others, and those are no SQL literals.
\<close>

definition float_is_finite :: "32 word \<Rightarrow> bool" where
  "float_is_finite w \<longleftrightarrow> (drop_bit 23 w) AND 0xFF \<noteq> 0xFF"

definition float_column_text :: "32 word \<Rightarrow> string" where
  \<comment> \<open>the text of a REAL column that was written as \<open>to_string\<close> of this finite float\<close>
  "float_column_text = (SOME f. True)"

definition real_column_text :: "nat \<Rightarrow> string" where
  \<comment> \<open>the text of the REAL that an integer literal beyond 64 signed bits becomes\<close>
  "real_column_text = (SOME f. True)"

definition stof :: "string \<Rightarrow> 32 word" where
  \<comment> \<open>\<open>std::stof\<close> on the text of a REAL column\<close>
  "stof = (SOME f. True)"

subsection \<open>Record\<close>

record Record =
  timestamp :: "64 word"   \<comment> \<open>\<open>uint64_t\<close>\<close>
  game_id :: "64 word"     \<comment> \<open>\<open>uint64_t\<close>\<close>
  seq :: "32 word"         \<comment> \<open>\<open>int\<close>, read with \<open>sint\<close>\<close>
  pri :: "32 word"         \<comment> \<open>\<open>float\<close>, as bits\<close>
  reward :: "32 word"      \<comment> \<open>\<open>float\<close>, as bits\<close>
  machine :: string
  content :: string

text \<open>The default member initialisers of \<open>Record\<close>.\<close>

definition Record_default :: Record where
  "Record_default =
     \<lparr>timestamp = 0, game_id = 0, seq = 0, pri = 0, reward = 0, machine = [], content = []\<rparr>"

subsection \<open>The database behind the \<open>sqlite3\<close> handle\<close>

text \<open>
  The engine is a library; the model gives the statements of this header their documented
  meaning. A row holds what the engine stores for the seven columns of \<open>table_create\<close>:
  TIME has text affinity (\<open>CHAR(20)\<close>) and is the primary key, so it is kept as the text
  that was inserted and no two rows share it; GAME\_ID and SEQ are integers; PRI and REWARD
  are reals. The table keeps its rows in the order of insertion.
\<close>

record row =
  TIME :: string
  GAME_ID :: nat
  MACHINE :: string
  SEQ :: int
  PRI :: "32 word"
  REWARD :: "32 word"
  CONTENT :: string

record database =
  table_rows :: "row list option"   \<comment> \<open>\<open>None\<close>: the table does not exist\<close>
  index_names :: "string list"      \<comment> \<open>the indexes created so far\<close>
  fault :: "nat option"
    \<comment> \<open>\<open>Some k\<close>: the file cannot be read or written; a statement on an existing table
        stops with an I/O error, a query after it has handed over \<open>k\<close> rows\<close>

datatype sqlite_rc = SQLITE_OK | SQLITE_ERROR | SQLITE_CONSTRAINT | SQLITE_IOERR

text \<open>
  The five statement texts that the header builds, named by the function building them.
  \<open>t\<close> stands for the table name of the buffer, a plain identifier (see below).
\<close>

datatype sql =
    Select_1_limit_1         \<comment> \<open>\<open>SELECT 1 FROM t LIMIT 1;\<close>\<close>
  | Create_table             \<comment> \<open>\<open>CREATE TABLE t (TIME CHAR(20) PRIMARY KEY NOT NULL, ...);\<close>\<close>
  | Create_index string      \<comment> \<open>\<open>CREATE INDEX name ON t(...);\<close>\<close>
  | Insert_values row        \<comment> \<open>\<open>INSERT INTO t VALUES ("time", game_id, "machine", seq, pri, reward, "content");\<close>\<close>
  | Select_recent int        \<comment> \<open>\<open>SELECT * FROM t ORDER BY TIME DESC LIMIT n;\<close>\<close>

text \<open>
  The text handed to the callback for each column. An integer column prints its digits; a
  GAME\_ID literal beyond 64 signed bits was stored as a real.
\<close>

definition column_texts :: "row \<Rightarrow> string list" where
  "column_texts r =
     [TIME r,
      (if GAME_ID r < 2 ^ 63 then to_string (GAME_ID r) else real_column_text (GAME_ID r)),
      MACHINE r,
      to_string_int (SEQ r),
      float_column_text (PRI r),
      float_column_text (REWARD r),
      CONTENT r]"

text \<open>
  \<open>ORDER BY TIME DESC\<close> compares the TIME texts byte by byte (a proper prefix first),
  which is the order of \<open>string\<close> here. \<open>LIMIT n\<close> with a negative \<open>n\<close> is no limit.
\<close>

definition order_by_time_desc :: "row list \<Rightarrow> row list" where
  "order_by_time_desc rs = rev (sort_key TIME rs)"

definition limit :: "int \<Rightarrow> 'a list \<Rightarrow> 'a list" where
  "limit n xs = (if n < 0 then xs else take (nat n) xs)"

text \<open>
  \<open>machine\<close> and \<open>content\<close> are pasted between double quotes, which the engine reads as
  string literals where no column of that name is in scope (its default). A text with a
  double quote or a NUL byte in it changes the statement into another one; what the
  engine does with that one is left unspecified.
\<close>

definition plain_text :: "string \<Rightarrow> bool" where
  "plain_text s \<longleftrightarrow> CHR 0x22 \<notin> set s \<and> CHR 0x00 \<notin> set s"

definition other_statement :: "row \<Rightarrow> database \<Rightarrow> sqlite_rc \<times> database" where
  "other_statement = (SOME f. True)"

text \<open>
  \<open>sqlite3_exec\<close>: the result code, the rows handed to the callback (as column texts, in
  order) and the database afterwards.
\<close>

fun sqlite3_exec :: "sql \<Rightarrow> database \<Rightarrow> sqlite_rc \<times> string list list \<times> database" where
  "sqlite3_exec Select_1_limit_1 d =
     (case table_rows d of
        None \<Rightarrow> (SQLITE_ERROR, [], d)
      | Some rs \<Rightarrow> (if fault d \<noteq> None then (SQLITE_IOERR, [], d)
                   else (SQLITE_OK, map (\<lambda>r. [''1'']) (take 1 rs), d)))"
| "sqlite3_exec Create_table d =
     (case table_rows d of
        Some rs \<Rightarrow> (SQLITE_ERROR, [], d)
      | None \<Rightarrow> (if fault d \<noteq> None then (SQLITE_IOERR, [], d)
                else (SQLITE_OK, [], d\<lparr>table_rows := Some []\<rparr>)))"
| "sqlite3_exec (Create_index name) d =
     (case table_rows d of
        None \<Rightarrow> (SQLITE_ERROR, [], d)
      | Some rs \<Rightarrow>
          (if name \<in> set (index_names d) then (SQLITE_ERROR, [], d)
           else if fault d \<noteq> None then (SQLITE_IOERR, [], d)
           else (SQLITE_OK, [], d\<lparr>index_names := index_names d @ [name]\<rparr>)))"
| "sqlite3_exec (Insert_values r) d =
     (if \<not> (plain_text (MACHINE r) \<and> plain_text (CONTENT r))
      then (case other_statement r d of (rc, d') \<Rightarrow> (rc, [], d'))
      else (case table_rows d of
        None \<Rightarrow> (SQLITE_ERROR, [], d)
      | Some rs \<Rightarrow>
          (if \<not> (float_is_finite (PRI r) \<and> float_is_finite (REWARD r)) then (SQLITE_ERROR, [], d)
           else if fault d \<noteq> None then (SQLITE_IOERR, [], d)
           else if TIME r \<in> TIME ` set rs then (SQLITE_CONSTRAINT, [], d)
           else (SQLITE_OK, [], d\<lparr>table_rows := Some (rs @ [r])\<rparr>))))"
| "sqlite3_exec (Select_recent n) d =
     (case table_rows d of
        None \<Rightarrow> (SQLITE_ERROR, [], d)
      | Some rs \<Rightarrow>
          (let result = map column_texts (limit n (order_by_time_desc rs))
           in case fault d of
                Some k \<Rightarrow> (SQLITE_IOERR, take k result, d)
              | None \<Rightarrow> (SQLITE_OK, result, d)))"

subsection \<open>The name of the table\<close>

text \<open>
  The code pastes \<open>table_name_\<close> unquoted into every statement. The statements of this
  model are those for a name that the engine reads as one plain identifier: letters,
  digits and underscores, not starting with a digit, no keyword of the engine and none of
  its reserved \<open>sqlite_\<close> names. A buffer of the model holds such a name. With any other
  name the texts are other statements (an empty name makes each a syntax error,
  \<open>main.t\<close> or a quoted name does not); what the constructor makes of such a name is left
  unspecified.
\<close>

definition toupper :: "char \<Rightarrow> char" where
  "toupper c =
     (case map_of (zip ''abcdefghijklmnopqrstuvwxyz'' ''ABCDEFGHIJKLMNOPQRSTUVWXYZ'') c of
        Some u \<Rightarrow> u | None \<Rightarrow> c)"

definition isalpha :: "char \<Rightarrow> bool" where
  "isalpha c \<longleftrightarrow> toupper c \<in> set ''ABCDEFGHIJKLMNOPQRSTUVWXYZ''"

definition sql_keywords :: "string list" where
  "sql_keywords =
     [''ABORT'', ''ACTION'', ''ADD'', ''AFTER'', ''ALL'', ''ALTER'', ''ALWAYS'', ''ANALYZE'',
      ''AND'', ''AS'', ''ASC'', ''ATTACH'', ''AUTOINCREMENT'', ''BEFORE'', ''BEGIN'',
      ''BETWEEN'', ''BY'', ''CASCADE'', ''CASE'', ''CAST'', ''CHECK'', ''COLLATE'', ''COLUMN'',
      ''COMMIT'', ''CONFLICT'', ''CONSTRAINT'', ''CREATE'', ''CROSS'', ''CURRENT'',
      ''CURRENT_DATE'', ''CURRENT_TIME'', ''CURRENT_TIMESTAMP'', ''DATABASE'', ''DEFAULT'',
      ''DEFERRABLE'', ''DEFERRED'', ''DELETE'', ''DESC'', ''DETACH'', ''DISTINCT'', ''DO'',
      ''DROP'', ''EACH'', ''ELSE'', ''END'', ''ESCAPE'', ''EXCEPT'', ''EXCLUDE'', ''EXCLUSIVE'',
      ''EXISTS'', ''EXPLAIN'', ''FAIL'', ''FILTER'', ''FIRST'', ''FOLLOWING'', ''FOR'',
      ''FOREIGN'', ''FROM'', ''FULL'', ''GENERATED'', ''GLOB'', ''GROUP'', ''GROUPS'',
      ''HAVING'', ''IF'', ''IGNORE'', ''IMMEDIATE'', ''IN'', ''INDEX'', ''INDEXED'',
      ''INITIALLY'', ''INNER'', ''INSERT'', ''INSTEAD'', ''INTERSECT'', ''INTO'', ''IS'',
      ''ISNULL'', ''JOIN'', ''KEY'', ''LAST'', ''LEFT'', ''LIKE'', ''LIMIT'', ''MATCH'',
      ''MATERIALIZED'', ''NATURAL'', ''NO'', ''NOT'', ''NOTHING'', ''NOTNULL'', ''NULL'',
      ''NULLS'', ''OF'', ''OFFSET'', ''ON'', ''OR'', ''ORDER'', ''OTHERS'', ''OUTER'', ''OVER'',
      ''PARTITION'', ''PLAN'', ''PRAGMA'', ''PRECEDING'', ''PRIMARY'', ''QUERY'', ''RAISE'',
      ''RANGE'', ''RECURSIVE'', ''REFERENCES'', ''REGEXP'', ''REINDEX'', ''RELEASE'',
      ''RENAME'', ''REPLACE'', ''RESTRICT'', ''RETURNING'', ''RIGHT'', ''ROLLBACK'', ''ROW'',
      ''ROWS'', ''SAVEPOINT'', ''SELECT'', ''SET'', ''TABLE'', ''TEMP'', ''TEMPORARY'', ''THEN'',
      ''TIES'', ''TO'', ''TRANSACTION'', ''TRIGGER'', ''UNBOUNDED'', ''UNION'', ''UNIQUE'',
      ''UPDATE'', ''USING'', ''VACUUM'', ''VALUES'', ''VIEW'', ''VIRTUAL'', ''WHEN'', ''WHERE'',
      ''WINDOW'', ''WITH'', ''WITHOUT'']"

definition sql_identifier :: "string \<Rightarrow> bool" where
  "sql_identifier s \<longleftrightarrow>
     s \<noteq> [] \<and> \<not> isdigit (hd s)
     \<and> list_all (\<lambda>c. isalpha c \<or> isdigit c \<or> c = CHR ''_'') s
     \<and> map toupper s \<notin> set sql_keywords
     \<and> take 7 (map toupper s) \<noteq> ''SQLITE_''"

typedef sql_name = "{s. sql_identifier s}"
  morphisms name_text Sql_name
  by (rule exI [of _ "''t''"])
     (simp add: sql_identifier_def isdigit_def isalpha_def toupper_def sql_keywords_def)


subsection \<open>\<open>std::mt19937\<close>\<close>

text \<open>
  The generator of the C++ standard: 624 words of 32 bits and a position. Seeding fills
  the words from the seed; drawing at position 624 first regenerates all words in place.
\<close>

record mt19937 =
  mt_x :: "32 word list"
  mt_p :: nat

primrec seed_fill :: "nat \<Rightarrow> nat \<Rightarrow> 32 word \<Rightarrow> 32 word list" where
  "seed_fill 0 i prev = []"
| "seed_fill (Suc k) i prev =
     (let x = 1812433253 * (prev XOR drop_bit 30 prev) + word_of_nat i
      in x # seed_fill k (Suc i) x)"

definition mt19937_seed :: "32 word \<Rightarrow> mt19937" where
  "mt19937_seed v = \<lparr>mt_x = v # seed_fill 623 1 v, mt_p = 624\<rparr>"

definition twist_word :: "32 word \<Rightarrow> 32 word \<Rightarrow> 32 word \<Rightarrow> 32 word" where
  "twist_word xk xk1 xkm =
     (let y = (xk AND 0x80000000) OR (xk1 AND 0x7FFFFFFF)
      in xkm XOR drop_bit 1 y XOR (if y AND 1 = 0 then 0 else 0x9908B0DF))"

primrec gen_rand :: "nat \<Rightarrow> nat \<Rightarrow> 32 word list \<Rightarrow> 32 word list" where
  "gen_rand 0 k x = x"
| "gen_rand (Suc c) k x =
     gen_rand c (Suc k)
       (x[k := twist_word (x ! k) (x ! ((k + 1) mod 624)) (x ! ((k + 397) mod 624))])"

definition temper :: "32 word \<Rightarrow> 32 word" where
  "temper y0 =
     (let y1 = y0 XOR (drop_bit 11 y0 AND 0xFFFFFFFF);
          y2 = y1 XOR (push_bit 7 y1 AND 0x9D2C5680);
          y3 = y2 XOR (push_bit 15 y2 AND 0xEFC60000)
      in y3 XOR drop_bit 18 y3)"

text \<open>\<open>operator()\<close>: the next 32 bits and the generator after the draw.\<close>

definition mt19937_next :: "mt19937 \<Rightarrow> 32 word \<times> mt19937" where
  "mt19937_next g =
     (let g' = (if 624 \<le> mt_p g then \<lparr>mt_x = gen_rand 624 0 (mt_x g), mt_p = 0\<rparr> else g)
      in (temper (mt_x g' ! mt_p g'), g'\<lparr>mt_p := mt_p g' + 1\<rparr>))"

subsection \<open>The state of a \<open>SharedRWBuffer\<close>\<close>

text \<open>
  \<open>RWLock\<close> comes from \<open>primitive.h\<close>, which is not among these sources. The model
  keeps, in \<open>rw_lock_\<close>, the calls that the thread has made on the lock, oldest first, and
  lets every call return; what the thread holds at any call is read off that log.
  \<open>alt_mutex_\<close> is a \<open>std::mutex\<close>: held or not. \<open>last_err_\<close> keeps the result code
  whose message the code stores, \<open>None\<close> for the empty string. The fields have the names
  of the source without the closing underscore.
\<close>

datatype rw_call = Read_shared_lock | Read_shared_unlock | Write_lock | Write_unlock

record SharedRWBuffer =
  db :: database
  table_name :: sql_name
  last_err :: "sqlite_rc option"
  curr_idx :: int
  recent_loaded :: "Record list list"
  rw_lock :: "rw_call list"
  alt_mutex :: bool
  verbose :: bool

text \<open>
  A \<open>Sampler\<close> holds a pointer to its buffer and a generator. The model has one buffer,
  passed along with the sampler, so the sampler is its generator.
\<close>

record Sampler =
  rng :: mt19937

subsection \<open>The private members\<close>

text \<open>
  \<open>exec\<close> without a callback (the default \<open>nullptr\<close>): the result code, and
  \<open>last_err_\<close> set from it. What \<open>verbose_\<close> prints is not modelled.
\<close>

definition exec :: "sql \<Rightarrow> SharedRWBuffer \<Rightarrow> sqlite_rc \<times> SharedRWBuffer" where
  "exec q s =
     (case sqlite3_exec q (db s) of
        (rc, texts, d) \<Rightarrow>
          (rc, s\<lparr>db := d, last_err := (if rc \<noteq> SQLITE_OK then Some rc else None)\<rparr>))"

definition table_exists :: "SharedRWBuffer \<Rightarrow> bool \<times> SharedRWBuffer" where
  "table_exists s = (case exec Select_1_limit_1 s of (rc, s') \<Rightarrow> (rc = SQLITE_OK, s'))"

definition table_create :: "SharedRWBuffer \<Rightarrow> bool \<times> SharedRWBuffer" where
  "table_create s =
     (case exec Create_table s of (rc1, s1) \<Rightarrow>
        if rc1 \<noteq> SQLITE_OK then (False, s1)
        else (case exec (Create_index ''idx_pri'') s1 of (rc2, s2) \<Rightarrow>
          if rc2 \<noteq> SQLITE_OK then (False, s2)
          else (case exec (Create_index ''idx_reward'') s2 of (rc3, s3) \<Rightarrow>
            if rc3 \<noteq> SQLITE_OK then (False, s3) else (True, s3))))"

text \<open>
  The values that \<open>table_insert\<close> writes into its statement. \<open>now\<close> is the clock in
  milliseconds, as \<open>system_clock::now()\<close> reads it.
\<close>

definition insert_values :: "Record \<Rightarrow> 64 word \<Rightarrow> row" where
  "insert_values r now =
     \<lparr>TIME = to_string (unat (if timestamp r = 0 then now else timestamp r)),
      GAME_ID = unat (game_id r),
      MACHINE = machine r,
      SEQ = sint (seq r),
      PRI = pri r,
      REWARD = reward r,
      CONTENT = content r\<rparr>"

definition table_insert :: "Record \<Rightarrow> 64 word \<Rightarrow> SharedRWBuffer \<Rightarrow> bool \<times> SharedRWBuffer" where
  "table_insert r now s =
     (case exec (Insert_values (insert_values r now)) s of (rc, s') \<Rightarrow> (rc = SQLITE_OK, s'))"

definition get_recent_load :: "SharedRWBuffer \<Rightarrow> Record list" where
  "get_recent_load s = recent_loaded s ! nat (curr_idx s)"

text \<open>
  \<open>(curr_idx + 1) % recent_loaded.size()\<close>: the sum is an \<open>int\<close>, converted to
  \<open>size_t\<close> for the remainder.
\<close>

definition alt_idx :: "SharedRWBuffer \<Rightarrow> nat" where
  "alt_idx s = unat (word_of_int (curr_idx s + 1) :: 64 word) mod length (recent_loaded s)"

definition cb_save_start :: "SharedRWBuffer \<Rightarrow> error + SharedRWBuffer" where
  "cb_save_start s =
     (if alt_mutex s then Inl Mutex_relock
      else Inr (s\<lparr>alt_mutex := True,
                  recent_loaded := (recent_loaded s)[alt_idx s := []]\<rparr>))"

definition cb_save :: "Record \<Rightarrow> SharedRWBuffer \<Rightarrow> bool \<times> SharedRWBuffer" where
  "cb_save r s =
     (True, s\<lparr>recent_loaded :=
                (recent_loaded s)[alt_idx s := recent_loaded s ! alt_idx s @ [r]]\<rparr>)"

definition cb_save_end :: "SharedRWBuffer \<Rightarrow> SharedRWBuffer" where
  "cb_save_end s =
     s\<lparr>rw_lock := rw_lock s @ [Write_lock, Write_unlock],
       curr_idx := int (alt_idx s),
       alt_mutex := False\<rparr>"

text \<open>
  The callback of \<open>table_read_recent\<close>. The conversions run in the order of the source;
  the first one that throws ends the callback.
\<close>

fun read_callback :: "string list \<Rightarrow> SharedRWBuffer \<Rightarrow> error + SharedRWBuffer" where
  "read_callback (c0 # c1 # c2 # c3 # c4 # c5 # c6 # cs) h =
     (case stoi c0 of Inl e \<Rightarrow> Inl e | Inr t \<Rightarrow>
       (case stoi c1 of Inl e \<Rightarrow> Inl e | Inr g \<Rightarrow>
         (case stoi c3 of Inl e \<Rightarrow> Inl e | Inr q \<Rightarrow>
            Inr (snd (cb_save
              \<lparr>timestamp = word_of_int t, game_id = word_of_int g, seq = word_of_int q,
               pri = stof c4, reward = stof c5, machine = c2, content = c6\<rparr> h)))))"
| "read_callback cs h = Inl Column_read"

text \<open>
  \<open>exec\<close> with \<open>read_callback\<close>: the engine hands over the rows one by one. An
  exception leaving the callback leaves \<open>exec\<close> too.
\<close>

fun callbacks :: "string list list \<Rightarrow> SharedRWBuffer \<Rightarrow> error + SharedRWBuffer" where
  "callbacks [] h = Inr h"
| "callbacks (t # ts) h =
     (case read_callback t h of Inl e \<Rightarrow> Inl e | Inr h' \<Rightarrow> callbacks ts h')"

definition exec_read_callback :: "sql \<Rightarrow> SharedRWBuffer \<Rightarrow> error + sqlite_rc \<times> SharedRWBuffer" where
  "exec_read_callback q s =
     (case sqlite3_exec q (db s) of
        (rc, texts, d) \<Rightarrow>
          (case callbacks texts (s\<lparr>db := d\<rparr>) of
             Inl e \<Rightarrow> Inl e
           | Inr s' \<Rightarrow>
               Inr (rc, s'\<lparr>last_err := (if rc \<noteq> SQLITE_OK then Some rc else None)\<rparr>)))"

definition table_read_recent :: "int \<Rightarrow> SharedRWBuffer \<Rightarrow> error + bool \<times> SharedRWBuffer" where
  "table_read_recent max_num_records s =
     (case cb_save_start s of
        Inl e \<Rightarrow> Inl e
      | Inr s1 \<Rightarrow>
          (case exec_read_callback (Select_recent max_num_records) s1 of
             Inl e \<Rightarrow> Inl e
           | Inr (ret, s2) \<Rightarrow> Inr (ret = SQLITE_OK, cb_save_end s2)))"

subsection \<open>The public members\<close>

text \<open>
  The constructor. \<open>file\<close> is what \<open>sqlite3_open\<close> finds: \<open>None\<close> when the file cannot
  be opened. The result of \<open>table_create\<close> is not looked at.
\<close>

definition other_name_buffer :: "database \<Rightarrow> string \<Rightarrow> bool \<Rightarrow> error + SharedRWBuffer" where
  \<comment> \<open>the constructor on a table name that is no plain identifier\<close>
  "other_name_buffer = (SOME f. True)"

definition new_SharedRWBuffer :: "database option \<Rightarrow> string \<Rightarrow> bool \<Rightarrow> error + SharedRWBuffer" where
  "new_SharedRWBuffer file name verb =
     (case file of
        None \<Rightarrow> Inl Range_error
      | Some d \<Rightarrow>
          if \<not> sql_identifier name then other_name_buffer d name verb
          else
          (let s = \<lparr>db = d, table_name = Sql_name name, last_err = None, curr_idx = 0,
                    recent_loaded = [[], []], rw_lock = [], alt_mutex = False,
                    verbose = verb\<rparr>
           in case table_exists s of
                (True, s') \<Rightarrow> Inr s'
              | (False, s') \<Rightarrow> Inr (snd (table_create s'))))"

definition Insert :: "Record \<Rightarrow> 64 word \<Rightarrow> SharedRWBuffer \<Rightarrow> bool \<times> SharedRWBuffer" where
  "Insert r now s = table_insert r now s"

definition LastError :: "SharedRWBuffer \<Rightarrow> sqlite_rc option" where
  "LastError s = last_err s"

text \<open>
  \<open>Sampler(SharedRWBuffer *)\<close>: the generator is seeded with \<open>time(NULL)\<close>, the clock in
  whole seconds, and the shared lock is taken.
\<close>

definition new_Sampler :: "64 word \<Rightarrow> SharedRWBuffer \<Rightarrow> Sampler \<times> SharedRWBuffer" where
  "new_Sampler now s =
     (\<lparr>rng = mt19937_seed (word_of_nat (unat now div 1000))\<rparr>,
      s\<lparr>rw_lock := rw_lock s @ [Read_shared_lock]\<rparr>)"

text \<open>\<open>Sampler(Sampler &&)\<close>: pointer and generator are taken over; the lock is not touched.\<close>

definition move_Sampler :: "Sampler \<Rightarrow> SharedRWBuffer \<Rightarrow> Sampler \<times> SharedRWBuffer" where
  "move_Sampler sampler s = (\<lparr>rng = rng sampler\<rparr>, s)"

text \<open>\<open>~Sampler()\<close>.\<close>

definition delete_Sampler :: "Sampler \<Rightarrow> SharedRWBuffer \<Rightarrow> SharedRWBuffer" where
  "delete_Sampler sampler s = s\<lparr>rw_lock := rw_lock s @ [Read_shared_unlock]\<rparr>"

text \<open>
  \<open>GetSampler\<close> returns \<open>Sampler(this)\<close>. Built in place (\<open>elide\<close>; required from C++17,
  allowed before), that is the one constructor call. Otherwise the temporary is moved
  into the result and then destroyed.
\<close>

definition GetSampler :: "bool \<Rightarrow> 64 word \<Rightarrow> SharedRWBuffer \<Rightarrow> Sampler \<times> SharedRWBuffer" where
  "GetSampler elide now s =
     (case new_Sampler now s of
        (tmp, s1) \<Rightarrow>
          if elide then (tmp, s1)
          else (case move_Sampler tmp s1 of (res, s2) \<Rightarrow> (res, delete_Sampler tmp s2)))"

text \<open>
  \<open>vector::at\<close> with an \<open>int\<close> index: converted to \<open>size_t\<close>, so a negative index is
  beyond every size.
\<close>

definition at :: "'a list \<Rightarrow> int \<Rightarrow> error + 'a" where
  "at xs i = (if 0 \<le> i \<and> nat i < length xs then Inr (xs ! nat i) else Inl Out_of_range)"

text \<open>
  \<open>Sampler::sample\<close>. The remainder is taken on unsigned 64-bit integers and stored in
  an \<open>int\<close>. The result is the record, the sampler with its generator advanced, and the
  buffer.
\<close>

definition sample :: "Sampler \<Rightarrow> SharedRWBuffer \<Rightarrow> error + Record \<times> Sampler \<times> SharedRWBuffer" where
  "sample sampler s =
     (case (if get_recent_load s = [] then table_read_recent 1000 s else Inr (True, s)) of
        Inl e \<Rightarrow> Inl e
      | Inr (ok, s') \<Rightarrow>
          (let loaded = get_recent_load s' in
           case mt19937_next (rng sampler) of
             (x, g) \<Rightarrow>
               if length loaded = 0 then Inl Modulus_by_zero
               else (case at loaded (sint (word_of_nat (unat x mod length loaded) :: 32 word)) of
                       Inl e \<Rightarrow> Inl e
                     | Inr r \<Rightarrow> Inr (r, sampler\<lparr>rng := g\<rparr>, s'))))"

section \<open>The vocabulary of the properties\<close>

text \<open>
  The constructor makes two buffers and starts at index 0; every index the code computes
  afterwards is 0 or 1.
\<close>

definition two_slots :: "SharedRWBuffer \<Rightarrow> bool" where
  "two_slots s \<longleftrightarrow> length (recent_loaded s) = 2 \<and> (curr_idx s = 0 \<or> curr_idx s = 1)"

text \<open>
  Modelled from the spec: \<open>RWLock\<close> (\<open>primitive.h\<close>) is missing. The spec's lock admits
  any number of shared holders and grants the exclusive hold only when no shared holder
  is active, so a thread that asks for the exclusive hold while it has a shared hold
  itself waits for its own release. The predicate reads the log of a thread's calls: does
  it hold a \<open>write_lock\<close> call made while the thread had a shared hold? \<open>h\<close> counts the
  shared holds before the first call of the log.
\<close>

fun write_lock_under_shared_hold :: "nat \<Rightarrow> rw_call list \<Rightarrow> bool" where
  "write_lock_under_shared_hold h [] = False"
| "write_lock_under_shared_hold h (Read_shared_lock # cs) = write_lock_under_shared_hold (Suc h) cs"
| "write_lock_under_shared_hold h (Read_shared_unlock # cs) = write_lock_under_shared_hold (h - 1) cs"
| "write_lock_under_shared_hold h (Write_lock # cs) = (0 < h \<or> write_lock_under_shared_hold h cs)"
| "write_lock_under_shared_hold h (Write_unlock # cs) = write_lock_under_shared_hold h cs"

definition calls :: "rw_call \<Rightarrow> rw_call list \<Rightarrow> nat" where
  "calls c cs = length (filter (\<lambda>x. x = c) cs)"

text \<open>The record that \<open>read_callback\<close> builds from the column texts of one row.\<close>

fun parse_columns :: "string list \<Rightarrow> error + Record" where
  "parse_columns (c0 # c1 # c2 # c3 # c4 # c5 # c6 # cs) =
     (case stoi c0 of Inl e \<Rightarrow> Inl e | Inr t \<Rightarrow>
       (case stoi c1 of Inl e \<Rightarrow> Inl e | Inr g \<Rightarrow>
         (case stoi c3 of Inl e \<Rightarrow> Inl e | Inr q \<Rightarrow>
            Inr \<lparr>timestamp = word_of_int t, game_id = word_of_int g, seq = word_of_int q,
                 pri = stof c4, reward = stof c5, machine = c2, content = c6\<rparr>)))"
| "parse_columns cs = Inl Column_read"

text \<open>
  A row that the callback can read back: its key is the decimal text of a number, and
  key, game id and sequence number fit \<open>stoi\<close>'s \<open>int\<close>.
\<close>

definition time_value :: "row \<Rightarrow> nat" where
  "time_value x = digits_value (TIME x)"

definition loadable_row :: "row \<Rightarrow> bool" where
  "loadable_row x \<longleftrightarrow>
     TIME x = to_string (time_value x) \<and> time_value x < 2 ^ 31 \<and> GAME_ID x < 2 ^ 31 \<and>
     - (2 ^ 31) \<le> SEQ x \<and> SEQ x < 2 ^ 31"

definition row_record :: "row \<Rightarrow> Record" where
  "row_record x =
     \<lparr>timestamp = word_of_nat (time_value x), game_id = word_of_nat (GAME_ID x),
      seq = word_of_int (SEQ x), pri = stof (float_column_text (PRI x)),
      reward = stof (float_column_text (REWARD x)), machine = MACHINE x, content = CONTENT x\<rparr>"

subsection \<open>Example states\<close>

text \<open>A database file without the table, and the buffer that the constructor makes on it.\<close>

definition empty_file :: database where
  "empty_file = \<lparr>table_rows = None, index_names = [], fault = None\<rparr>"

definition fresh_store :: SharedRWBuffer where
  "fresh_store =
     \<lparr>db = \<lparr>table_rows = Some [], index_names = [''idx_pri'', ''idx_reward''], fault = None\<rparr>,
      table_name = Sql_name ''t'', last_err = None, curr_idx = 0, recent_loaded = [[], []],
      rw_lock = [], alt_mutex = False, verbose = False\<rparr>"

text \<open>A record with a timestamp of the caller's, and nothing else set.\<close>

definition stamped :: "64 word \<Rightarrow> Record" where
  "stamped t = Record_default\<lparr>timestamp := t\<rparr>"

text \<open>The same buffer with two records loaded and one left in the staging slot.\<close>

definition loaded_store :: SharedRWBuffer where
  "loaded_store = fresh_store\<lparr>recent_loaded := [[stamped 100, stamped 200], [stamped 50]]\<rparr>"

text \<open>
  Stores filled by \<open>Insert\<close>: one record with the caller's timestamp 7; one record
  without a timestamp, appended at a clock reading of today's size; timestamps 99 and
  100, appended in that order; timestamps 300 and 200, appended in that order.
\<close>

definition one_record_store :: SharedRWBuffer where
  "one_record_store = snd (Insert (stamped 7) 5 fresh_store)"

definition wall_clock_store :: SharedRWBuffer where
  "wall_clock_store = snd (Insert Record_default 1500000000123 fresh_store)"

definition mixed_width_store :: SharedRWBuffer where
  "mixed_width_store = snd (Insert (stamped 100) 0 (snd (Insert (stamped 99) 0 fresh_store)))"


text \<open>A table of two rows stamped by today's clock, 377 milliseconds apart.\<close>

definition clock_rows :: "row list" where
  "clock_rows = [insert_values Record_default 1500000000123,
                 insert_values Record_default 1500000000500]"


text \<open>
  A table with the timestamps 100, 300 and 200, in the order of their insertion; and the
  same table on a file that fails after the first row of a result, under a buffer that
  holds an earlier load.
\<close>

definition scenario_rows :: "row list" where
  "scenario_rows = [insert_values (stamped 100) 0, insert_values (stamped 300) 0,
                    insert_values (stamped 200) 0]"

definition scenario_store :: SharedRWBuffer where
  "scenario_store = fresh_store\<lparr>db := (db fresh_store)\<lparr>table_rows := Some scenario_rows\<rparr>\<rparr>"

definition failing_store :: SharedRWBuffer where
  "failing_store =
     scenario_store\<lparr>db := (db scenario_store)\<lparr>fault := Some 1\<rparr>,
                    recent_loaded := [[row_record (insert_values (stamped 200) 0),
                                       row_record (insert_values (stamped 100) 0)], []]\<rparr>"

section \<open>The constructor and the two slots\<close>

lemma sql_identifier_t: "sql_identifier ''t''"
  by (simp add: sql_identifier_def isdigit_def isalpha_def toupper_def sql_keywords_def)

lemma new_SharedRWBuffer_empty_file:
  "new_SharedRWBuffer (Some empty_file) ''t'' False = Inr fresh_store"
  by (simp add: new_SharedRWBuffer_def sql_identifier_t empty_file_def fresh_store_def
      table_exists_def table_create_def exec_def)

lemma exec_keeps_cache:
  assumes "exec q s = (rc, s')"
  shows "recent_loaded s' = recent_loaded s \<and> curr_idx s' = curr_idx s
           \<and> rw_lock s' = rw_lock s \<and> alt_mutex s' = alt_mutex s"
  using assms by (auto simp: exec_def split: prod.splits)

lemma table_create_keeps_cache:
  assumes "table_create s = (ok, s')"
  shows "recent_loaded s' = recent_loaded s \<and> curr_idx s' = curr_idx s
           \<and> rw_lock s' = rw_lock s \<and> alt_mutex s' = alt_mutex s"
  using assms unfolding table_create_def
  by (auto split: prod.splits if_splits dest!: exec_keeps_cache)

lemma table_exists_keeps_cache:
  assumes "table_exists s = (ok, s')"
  shows "recent_loaded s' = recent_loaded s \<and> curr_idx s' = curr_idx s
           \<and> rw_lock s' = rw_lock s \<and> alt_mutex s' = alt_mutex s"
  using assms unfolding table_exists_def
  by (auto split: prod.splits dest!: exec_keeps_cache)

lemma new_SharedRWBuffer_two_slots:
  assumes "new_SharedRWBuffer fl name verb = Inr s" and "sql_identifier name"
  shows "two_slots s \<and> \<not> alt_mutex s \<and> rw_lock s = [] \<and> get_recent_load s = []"
proof -
  obtain d where d: "fl = Some d"
    using assms by (cases fl) (simp_all add: new_SharedRWBuffer_def)
  define i where "i = \<lparr>db = d, table_name = Sql_name name, last_err = None, curr_idx = 0,
      recent_loaded = [[], []], rw_lock = [], alt_mutex = False, verbose = verb\<rparr>"
  obtain ok s1 where e: "table_exists i = (ok, s1)"
    by (cases "table_exists i")
  obtain ok' s2 where c: "table_create s1 = (ok', s2)"
    by (cases "table_create s1")
  have "s = s1 \<or> s = s2"
    using assms d e c by (cases ok) (simp_all add: new_SharedRWBuffer_def i_def)
  moreover have "recent_loaded i = [[], []] \<and> curr_idx i = 0 \<and> rw_lock i = [] \<and> \<not> alt_mutex i"
    by (simp add: i_def)
  ultimately have "recent_loaded s = [[], []] \<and> curr_idx s = 0 \<and> rw_lock s = [] \<and> \<not> alt_mutex s"
    using table_exists_keeps_cache [OF e] table_create_keeps_cache [OF c] by auto
  then show ?thesis
    by (simp add: two_slots_def get_recent_load_def)
qed

lemma alt_idx_two_slots:
  "two_slots s \<Longrightarrow> alt_idx s = (if curr_idx s = 0 then 1 else 0)"
  by (auto simp: two_slots_def alt_idx_def)

lemma alt_idx_other:
  "two_slots s \<Longrightarrow> alt_idx s \<noteq> nat (curr_idx s) \<and> alt_idx s < 2"
  by (auto simp: alt_idx_two_slots two_slots_def)

lemma length_2_nth:
  "length xs = 2 \<Longrightarrow> i < 2 \<Longrightarrow> j < 2 \<Longrightarrow> i \<noteq> j \<Longrightarrow> xs[i := v] ! j = xs ! j"
  by simp

lemma cb_save_start_effect:
  assumes "two_slots s" and "\<not> alt_mutex s"
  shows "\<exists>s'. cb_save_start s = Inr s' \<and> two_slots s' \<and> alt_mutex s'
           \<and> curr_idx s' = curr_idx s \<and> get_recent_load s' = get_recent_load s
           \<and> recent_loaded s' ! alt_idx s' = [] \<and> db s' = db s \<and> rw_lock s' = rw_lock s"
  using assms alt_idx_other [OF assms(1)]
  by (auto simp: cb_save_start_def two_slots_def get_recent_load_def alt_idx_def)

lemma cb_save_effect:
  assumes "two_slots s"
  shows "fst (cb_save r s) \<and> two_slots (snd (cb_save r s))
           \<and> curr_idx (snd (cb_save r s)) = curr_idx s
           \<and> alt_idx (snd (cb_save r s)) = alt_idx s
           \<and> get_recent_load (snd (cb_save r s)) = get_recent_load s
           \<and> recent_loaded (snd (cb_save r s)) ! alt_idx s = recent_loaded s ! alt_idx s @ [r]"
  using assms alt_idx_other [OF assms]
  by (auto simp: cb_save_def two_slots_def get_recent_load_def alt_idx_def)

lemma cb_save_end_effect:
  assumes "two_slots s"
  shows "two_slots (cb_save_end s) \<and> curr_idx (cb_save_end s) = int (alt_idx s)
           \<and> curr_idx (cb_save_end s) \<noteq> curr_idx s
           \<and> recent_loaded (cb_save_end s) = recent_loaded s
           \<and> get_recent_load (cb_save_end s) = recent_loaded s ! alt_idx s
           \<and> \<not> alt_mutex (cb_save_end s)"
  using assms alt_idx_other [OF assms]
  by (auto simp: cb_save_end_def two_slots_def get_recent_load_def alt_idx_two_slots)

section \<open>A refresh, step by step\<close>

lemma read_callback_parse:
  "read_callback t h =
     (case parse_columns t of Inl e \<Rightarrow> Inl e | Inr r \<Rightarrow> Inr (snd (cb_save r h)))"
  by (induction t h rule: read_callback.induct) (simp_all split: sum.splits)

lemma callbacks_Inr:
  "map parse_columns ts = map Inr rs \<Longrightarrow>
     callbacks ts h = Inr (foldl (\<lambda>h r. snd (cb_save r h)) h rs)"
proof (induction ts arbitrary: h rs)
  case Nil
  then show ?case by simp
next
  case (Cons t ts)
  then obtain r rs' where rs: "rs = r # rs'" "parse_columns t = Inr r"
      "map parse_columns ts = map Inr rs'"
    by (cases rs) auto
  with Cons.IH [OF rs(3)] show ?case
    by (simp add: read_callback_parse)
qed

lemma callbacks_Inr_D:
  "callbacks ts h = Inr h' \<Longrightarrow> \<exists>rs. map parse_columns ts = map Inr rs"
proof (induction ts arbitrary: h)
  case Nil
  then show ?case by simp
next
  case (Cons t ts)
  from Cons.prems obtain r where r: "parse_columns t = Inr r"
    by (cases "parse_columns t") (simp_all add: read_callback_parse)
  with Cons.prems have "callbacks ts (snd (cb_save r h)) = Inr h'"
    by (simp add: read_callback_parse)
  from Cons.IH [OF this] obtain rs where "map parse_columns ts = map Inr rs" ..
  with r have "map parse_columns (t # ts) = map Inr (r # rs)" by simp
  then show ?case ..
qed

lemma pushes_effect:
  "two_slots h \<Longrightarrow>
     foldl (\<lambda>h r. snd (cb_save r h)) h rs =
       h\<lparr>recent_loaded := (recent_loaded h)[alt_idx h := recent_loaded h ! alt_idx h @ rs]\<rparr>"
proof (induction rs arbitrary: h)
  case Nil
  then show ?case by simp
next
  case (Cons r rs)
  let ?h = "snd (cb_save r h)"
  have a: "alt_idx h < length (recent_loaded h)"
    using alt_idx_other [OF Cons.prems] Cons.prems by (simp add: two_slots_def)
  have h: "two_slots ?h" "alt_idx ?h = alt_idx h"
    using cb_save_effect [OF Cons.prems, of r] by simp_all
  have "?h = h\<lparr>recent_loaded := (recent_loaded h)[alt_idx h := recent_loaded h ! alt_idx h @ [r]]\<rparr>"
    by (simp add: cb_save_def)
  with Cons.IH [OF h(1)] h(2) a show ?case
    by simp
qed

lemma select_recent_keeps_db:
  "sqlite3_exec (Select_recent n) d = (rc, texts, d') \<Longrightarrow> d' = d"
  by (auto split: option.splits simp: Let_def)

lemma table_read_recent_Inr:
  assumes "two_slots s" and "\<not> alt_mutex s"
    and "sqlite3_exec (Select_recent n) (db s) = (rc, texts, d)"
    and "map parse_columns texts = map Inr rs"
  shows "table_read_recent n s =
     Inr (rc = SQLITE_OK,
          s\<lparr>last_err := (if rc \<noteq> SQLITE_OK then Some rc else None),
            recent_loaded := (recent_loaded s)[alt_idx s := rs],
            rw_lock := rw_lock s @ [Write_lock, Write_unlock],
            curr_idx := int (alt_idx s), alt_mutex := False\<rparr>)"
proof -
  define s1 where "s1 = s\<lparr>alt_mutex := True, recent_loaded := (recent_loaded s)[alt_idx s := []]\<rparr>"
  have s1: "cb_save_start s = Inr s1"
    using assms(2) by (simp add: cb_save_start_def s1_def)
  have a: "alt_idx s < 2" "length (recent_loaded s) = 2"
    using alt_idx_other [OF assms(1)] assms(1) by (simp_all add: two_slots_def)
  have t1: "two_slots s1" "alt_idx s1 = alt_idx s" "db s1 = db s"
    using assms(1) by (simp_all add: s1_def two_slots_def alt_idx_def)
  have d: "d = db s"
    using select_recent_keeps_db [OF assms(3)] .
  have id: "s1\<lparr>db := d\<rparr> = s1"
    by (simp add: d t1(3) [symmetric])
  have "callbacks texts (s1\<lparr>db := d\<rparr>) =
          Inr (s1\<lparr>recent_loaded := (recent_loaded s1)[alt_idx s1 := recent_loaded s1 ! alt_idx s1 @ rs]\<rparr>)"
    unfolding id using callbacks_Inr [OF assms(4), of s1] pushes_effect [OF t1(1), of rs] by simp
  then have "exec_read_callback (Select_recent n) s1 =
      Inr (rc, s1\<lparr>recent_loaded := (recent_loaded s1)[alt_idx s1 := recent_loaded s1 ! alt_idx s1 @ rs],
                 last_err := (if rc \<noteq> SQLITE_OK then Some rc else None)\<rparr>)"
    using assms(3) t1(3) by (simp add: exec_read_callback_def)
  then show ?thesis
    using s1 a t1(2)
    by (simp add: table_read_recent_def cb_save_end_def s1_def alt_idx_def)
qed

lemma table_read_recent_Inr_D:
  assumes "table_read_recent n s = Inr (ok, s')"
  shows "\<not> alt_mutex s \<and>
     (\<exists>rs. map parse_columns (fst (snd (sqlite3_exec (Select_recent n) (db s)))) = map Inr rs)"
proof -
  obtain rc texts d where e: "sqlite3_exec (Select_recent n) (db s) = (rc, texts, d)"
    by (cases "sqlite3_exec (Select_recent n) (db s)")
  from assms obtain s1 where s1: "cb_save_start s = Inr s1"
    by (cases "cb_save_start s") (simp_all add: table_read_recent_def)
  then have m: "\<not> alt_mutex s" and d1: "db s1 = db s"
    by (auto simp: cb_save_start_def split: if_splits)
  from assms s1 obtain h where "callbacks texts (s1\<lparr>db := d\<rparr>) = Inr h"
    using e d1
    by (cases "callbacks texts (s1\<lparr>db := d\<rparr>)")
       (simp_all add: table_read_recent_def exec_read_callback_def)
  from callbacks_Inr_D [OF this] m e show ?thesis by simp
qed

lemma table_read_recent_loaded:
  assumes "two_slots s" and "\<not> alt_mutex s"
    and "sqlite3_exec (Select_recent n) (db s) = (rc, texts, d)"
    and "map parse_columns texts = map Inr rs"
  shows "\<exists>s'. table_read_recent n s = Inr (rc = SQLITE_OK, s')
           \<and> get_recent_load s' = rs \<and> curr_idx s' = int (alt_idx s)
           \<and> curr_idx s' \<noteq> curr_idx s
           \<and> recent_loaded s' ! nat (curr_idx s) = get_recent_load s
           \<and> rw_lock s' = rw_lock s @ [Write_lock, Write_unlock]
           \<and> db s' = db s \<and> two_slots s' \<and> \<not> alt_mutex s'
           \<and> last_err s' = (if rc \<noteq> SQLITE_OK then Some rc else None)"
proof -
  have a: "alt_idx s \<noteq> nat (curr_idx s)" "alt_idx s < 2" "length (recent_loaded s) = 2"
    using alt_idx_other [OF assms(1)] assms(1) by (simp_all add: two_slots_def)
  have c: "int (alt_idx s) \<noteq> curr_idx s" "int (alt_idx s) = 0 \<or> int (alt_idx s) = 1"
    using a(1,2) assms(1) by (auto simp: two_slots_def)
  show ?thesis
    unfolding table_read_recent_Inr [OF assms]
    using a c by (simp add: get_recent_load_def two_slots_def)
qed

lemma refresh_calls:
  assumes "two_slots s" and "table_read_recent n s = Inr (ok, s')"
  shows "rw_lock s' = rw_lock s @ [Write_lock, Write_unlock]"
proof -
  obtain rc texts d where e: "sqlite3_exec (Select_recent n) (db s) = (rc, texts, d)"
    by (cases "sqlite3_exec (Select_recent n) (db s)")
  from table_read_recent_Inr_D [OF assms(2)] e obtain rs where
    m: "\<not> alt_mutex s" and p: "map parse_columns texts = map Inr rs"
    by auto
  from table_read_recent_loaded [OF assms(1) m e p] assms(2)
  show ?thesis
    by auto
qed

section \<open>Decimal text\<close>

lemma below_ten:
  "d < 10 \<Longrightarrow> d = 0 \<or> d = 1 \<or> d = 2 \<or> d = 3 \<or> d = 4 \<or> d = 5 \<or> d = 6 \<or> d = 7 \<or> d = 8 \<or> d = (9::nat)"
  by arith

lemma of_char_digit_char: "d < 10 \<Longrightarrow> of_char (digit_char d) = 48 + d"
  by (drule below_ten) (auto simp: digit_char_def)

lemma digit_val_digit_char: "d < 10 \<Longrightarrow> digit_val (digit_char d) = d"
  by (simp add: digit_val_def of_char_digit_char)

lemma isdigit_of_char: "isdigit c \<longleftrightarrow> 48 \<le> (of_char c :: nat) \<and> (of_char c :: nat) \<le> 57"
  by (simp add: isdigit_def less_eq_char_def)

lemma isdigit_digit_char: "d < 10 \<Longrightarrow> isdigit (digit_char d)"
  by (simp add: isdigit_of_char of_char_digit_char)

lemma isdigit_plain:
  assumes "isdigit c"
  shows "\<not> isspace c \<and> c \<noteq> CHR ''-'' \<and> c \<noteq> CHR ''+''"
proof -
  have "of_char c \<noteq> (32::nat) \<and> of_char c \<noteq> (9::nat) \<and> of_char c \<noteq> (10::nat)
      \<and> of_char c \<noteq> (11::nat) \<and> of_char c \<noteq> (12::nat) \<and> of_char c \<noteq> (13::nat)
      \<and> of_char c \<noteq> (45::nat) \<and> of_char c \<noteq> (43::nat)"
    using assms by (simp add: isdigit_of_char)
  then show ?thesis
    by (auto simp: isspace_def)
qed


lemma to_string_digits: "c \<in> set (to_string n) \<Longrightarrow> isdigit c"
proof (induction n rule: to_string.induct)
  case (1 n)
  then show ?case
    by (subst (asm) to_string.simps) (auto simp: isdigit_digit_char split: if_splits)
qed

lemma to_string_not_Nil: "to_string n \<noteq> []"
  by (subst to_string.simps) simp

lemma digits_value_snoc: "digits_value (ds @ [c]) = 10 * digits_value ds + digit_val c"
  by (simp add: digits_value_def)

lemma digits_value_to_string: "digits_value (to_string n) = n"
proof (induction n rule: to_string.induct)
  case (1 n)
  show ?case
  proof (cases "n < 10")
    case True
    then show ?thesis
      by (subst to_string.simps) (simp add: digits_value_def digit_val_digit_char)
  next
    case False
    with 1 have "digits_value (to_string (n div 10)) = n div 10" by simp
    with False show ?thesis
      by (subst to_string.simps) (simp add: digits_value_snoc digit_val_digit_char)
  qed
qed



lemma stoi_digits:
  assumes "ds \<noteq> []" and "\<forall>c\<in>set ds. isdigit c"
  shows "stoi ds = (if digits_value ds < 2 ^ 31 then Inr (int (digits_value ds)) else Inl Out_of_range)"
proof -
  from assms obtain c cs where ds: "ds = c # cs" and c: "isdigit c"
    by (cases ds) auto
  have d: "dropWhile isspace ds = ds"
    using isdigit_plain [OF c] by (simp add: ds)
  have t: "takeWhile isdigit ds = ds"
    using assms(2) by (simp add: takeWhile_eq_all_conv)
  show ?thesis
    unfolding stoi_def d using isdigit_plain [OF c] assms(1) t
    by (simp add: ds Let_def)
qed

lemma stoi_to_string:
  "stoi (to_string n) = (if n < 2 ^ 31 then Inr (int n) else Inl Out_of_range)"
  using stoi_digits [OF to_string_not_Nil, of n] to_string_digits [of _ n]
  by (simp add: digits_value_to_string)

lemma stoi_to_string_int:
  "stoi (to_string_int i) = (if - (2 ^ 31) \<le> i \<and> i < 2 ^ 31 then Inr i else Inl Out_of_range)"
proof (cases "i < 0")
  case False
  then show ?thesis
    using stoi_to_string [of "nat i"] by (auto simp: to_string_int_def)
next
  case True
  let ?ds = "to_string (nat (- i))"
  have t: "takeWhile isdigit ?ds = ?ds"
    using to_string_digits [of _ "nat (- i)"] by (simp add: takeWhile_eq_all_conv)
  have "\<not> isspace (CHR ''-'')"
    by (simp add: isspace_def)
  then show ?thesis
    using True to_string_not_Nil [of "nat (- i)"]
    by (auto simp: stoi_def to_string_int_def t Let_def digits_value_to_string)
qed


section \<open>The order of decimal texts\<close>







section \<open>Reading a row back\<close>

lemma parse_loadable_row:
  assumes "loadable_row x"
  shows "parse_columns (column_texts x) = Inr (row_record x)"
proof -
  have t: "stoi (TIME x) = Inr (int (time_value x))"
    using assms stoi_to_string [of "time_value x"] by (simp add: loadable_row_def)
  have g: "stoi (to_string (GAME_ID x)) = Inr (int (GAME_ID x))" "GAME_ID x < 9223372036854775808"
    using assms stoi_to_string [of "GAME_ID x"] by (simp_all add: loadable_row_def)
  have q: "stoi (to_string_int (SEQ x)) = Inr (SEQ x)"
    using assms by (simp add: stoi_to_string_int loadable_row_def)
  show ?thesis
    by (simp add: column_texts_def t g q row_record_def)
qed



lemma loadable_insert_values:
  assumes "unat (if timestamp r = 0 then now else timestamp r) < 2 ^ 31"
    and "unat (game_id r) < 2 ^ 31"
  shows "loadable_row (insert_values r now)"
  using assms sint_ge [of "seq r"] sint_lt [of "seq r"]
  by (simp add: loadable_row_def insert_values_def time_value_def digits_value_to_string)



lemma refresh_single_row:
  assumes "two_slots s" and "\<not> alt_mutex s"
    and "table_rows (db s) = Some [x]" and "fault (db s) = None" and "loadable_row x"
  shows "\<exists>s'. table_read_recent 1000 s = Inr (True, s') \<and> get_recent_load s' = [row_record x]
           \<and> rw_lock s' = rw_lock s @ [Write_lock, Write_unlock]"
proof -
  have e: "sqlite3_exec (Select_recent 1000) (db s) = (SQLITE_OK, [column_texts x], db s)"
    using assms(3,4) by (simp add: limit_def order_by_time_desc_def)
  have p: "map parse_columns [column_texts x] = map Inr [row_record x]"
    using assms(5) by (simp add: parse_loadable_row)
  from table_read_recent_loaded [OF assms(1,2) e p] show ?thesis
    by auto
qed

lemma unat_timestamp_row_record:
  "loadable_row x \<Longrightarrow> unat (timestamp (row_record x)) = time_value x"
  by (simp add: loadable_row_def row_record_def unat_of_nat)

section \<open>Inserting\<close>

lemma Insert_plain:
  assumes "plain_text (machine r)" and "plain_text (content r)"
  shows "Insert r now s =
     (case table_rows (db s) of
        None \<Rightarrow> (False, s\<lparr>last_err := Some SQLITE_ERROR\<rparr>)
      | Some rs \<Rightarrow>
          if \<not> (float_is_finite (pri r) \<and> float_is_finite (reward r))
          then (False, s\<lparr>last_err := Some SQLITE_ERROR\<rparr>)
          else if fault (db s) \<noteq> None then (False, s\<lparr>last_err := Some SQLITE_IOERR\<rparr>)
          else if TIME (insert_values r now) \<in> TIME ` set rs
          then (False, s\<lparr>last_err := Some SQLITE_CONSTRAINT\<rparr>)
          else (True, s\<lparr>db := (db s)\<lparr>table_rows := Some (rs @ [insert_values r now])\<rparr>,
                         last_err := None\<rparr>))"
  using assms
  by (simp add: Insert_def table_insert_def exec_def insert_values_def split: option.splits)

lemma Insert_fresh:
  assumes "plain_text (machine r)" and "plain_text (content r)"
    and "float_is_finite (pri r)" and "float_is_finite (reward r)"
  shows "Insert r now fresh_store =
     (True, fresh_store\<lparr>db := (db fresh_store)\<lparr>table_rows := Some [insert_values r now]\<rparr>\<rparr>)"
  using assms by (simp add: Insert_plain fresh_store_def)

lemma plain_default: "plain_text (machine Record_default)" "plain_text (content Record_default)"
  "float_is_finite (pri Record_default)" "float_is_finite (reward Record_default)"
  by (simp_all add: Record_default_def plain_text_def float_is_finite_def)

lemma plain_stamped: "plain_text (machine (stamped t))" "plain_text (content (stamped t))"
  "float_is_finite (pri (stamped t))" "float_is_finite (reward (stamped t))"
  by (simp_all add: stamped_def Record_default_def plain_text_def float_is_finite_def)

lemma TIME_stamped:
  "TIME (insert_values (stamped 99) 0) = ''99''" "TIME (insert_values (stamped 100) 0) = ''100''"
  "TIME (insert_values (stamped 200) 0) = ''200''" "TIME (insert_values (stamped 300) 0) = ''300''"
  by (simp_all add: insert_values_def stamped_def Record_default_def to_string.simps digit_char_def)

lemma loadable_stamped:
  "unat t < 2 ^ 31 \<Longrightarrow> t \<noteq> 0 \<Longrightarrow> loadable_row (insert_values (stamped t) now)"
  by (simp add: loadable_row_def insert_values_def stamped_def Record_default_def time_value_def
      digits_value_to_string)

lemma order_scenario_rows:
  "order_by_time_desc scenario_rows =
     [insert_values (stamped 300) 0, insert_values (stamped 200) 0, insert_values (stamped 100) 0]"
  by (simp add: order_by_time_desc_def scenario_rows_def insert_values_def stamped_def
      Record_default_def to_string.simps digit_char_def)

lemma timestamp_row_record_stamped:
  "unat t < 2 ^ 31 \<Longrightarrow> t \<noteq> 0 \<Longrightarrow> timestamp (row_record (insert_values (stamped t) now)) = t"
  by (simp add: row_record_def insert_values_def stamped_def Record_default_def time_value_def
      digits_value_to_string)

lemma one_record_store_eq:
  "one_record_store =
     fresh_store\<lparr>db := (db fresh_store)\<lparr>table_rows := Some [insert_values (stamped 7) 5]\<rparr>\<rparr>"
  by (simp add: one_record_store_def Insert_fresh plain_stamped)

lemma wall_clock_store_eq:
  "wall_clock_store =
     fresh_store\<lparr>db := (db fresh_store)\<lparr>table_rows :=
       Some [insert_values Record_default 1500000000123]\<rparr>\<rparr>"
  by (simp add: wall_clock_store_def Insert_fresh plain_default)

lemma mixed_width_store_eq:
  "mixed_width_store =
     fresh_store\<lparr>db := (db fresh_store)\<lparr>table_rows :=
       Some [insert_values (stamped 99) 0, insert_values (stamped 100) 0]\<rparr>\<rparr>"
  by (simp add: mixed_width_store_def Insert_plain plain_stamped TIME_stamped fresh_store_def)


lemma clock_rows_keys:
  "map TIME clock_rows = [''1500000000123'', ''1500000000500'']"
  by (simp add: clock_rows_def insert_values_def Record_default_def to_string.simps digit_char_def)


section \<open>Sampling\<close>

lemma sint_word_of_nat_small:
  "k < 2 ^ 31 \<Longrightarrow> sint (word_of_nat k :: 32 word) = int k"
  by (simp add: signed_of_nat signed_take_bit_int_eq_self)

lemma sample_nonempty:
  assumes "get_recent_load s \<noteq> []" and "length (get_recent_load s) < 2 ^ 31"
  shows "\<exists>x. sample smp s = Inr (x, smp\<lparr>rng := snd (mt19937_next (rng smp))\<rparr>, s)
           \<and> x \<in> set (get_recent_load s)"
proof -
  obtain y g where d: "mt19937_next (rng smp) = (y, g)"
    by (cases "mt19937_next (rng smp)")
  define k where "k = unat y mod length (get_recent_load s)"
  have k: "k < length (get_recent_load s)"
    using assms(1) by (simp add: k_def)
  then have "sint (word_of_nat k :: 32 word) = int k"
    using assms(2) by (simp add: sint_word_of_nat_small)
  then have "at (get_recent_load s) (sint (word_of_nat k :: 32 word)) = Inr (get_recent_load s ! k)"
    using k by (simp add: at_def)
  then have "sample smp s = Inr (get_recent_load s ! k, smp\<lparr>rng := snd (mt19937_next (rng smp))\<rparr>, s)"
    using assms(1) by (simp add: sample_def Let_def d k_def [symmetric])
  with k show ?thesis
    by simp
qed

lemma limit_all: "n < 0 \<or> int (length xs) \<le> n \<Longrightarrow> limit n xs = xs"
  by (auto simp: limit_def)

lemma sample_single:
  assumes "get_recent_load s = []" and "table_read_recent 1000 s = Inr (ok, s')"
    and "get_recent_load s' = [r]"
  shows "sample smp s = Inr (r, smp\<lparr>rng := snd (mt19937_next (rng smp))\<rparr>, s')"
  using assms by (simp add: sample_def at_def Let_def split: prod.splits)

lemma snd_GetSampler_elided:
  "snd (GetSampler True now s) = s\<lparr>rw_lock := rw_lock s @ [Read_shared_lock]\<rparr>"
  by (simp add: GetSampler_def new_Sampler_def)

lemma sample_Inr_D:
  assumes "sample smp s = Inr (x, smp', s')"
  shows "(if get_recent_load s = [] then \<exists>ok. table_read_recent 1000 s = Inr (ok, s') else s' = s)
       \<and> x \<in> set (get_recent_load s')"
proof -
  obtain ok s1 where r: "(if get_recent_load s = [] then table_read_recent 1000 s else Inr (True, s))
      = Inr (ok, s1)"
    using assms
    by (cases "if get_recent_load s = [] then table_read_recent 1000 s else Inr (True, s)")
       (auto simp: sample_def)
  obtain y g where d: "mt19937_next (rng smp) = (y, g)"
    by (cases "mt19937_next (rng smp)")
  from assms have "s' = s1 \<and> x \<in> set (get_recent_load s1)"
    unfolding sample_def r by (auto simp: d Let_def at_def split: if_splits sum.splits)
  with r show ?thesis
    by (auto split: if_splits)
qed

lemma refresh_throws:
  assumes "\<not> alt_mutex s" and "table_rows (db s) = Some [x]" and "fault (db s) = None"
    and "parse_columns (column_texts x) = Inl e"
  shows "table_read_recent 1000 s = Inl e"
  using assms
  by (simp add: table_read_recent_def cb_save_start_def exec_read_callback_def limit_def
      order_by_time_desc_def read_callback_parse)

lemma sample_still_empty:
  assumes "get_recent_load s = []" and "table_read_recent 1000 s = Inr (ok, s')"
    and "get_recent_load s' = []"
  shows "sample smp s = Inl Modulus_by_zero"
  using assms by (simp add: sample_def Let_def split: prod.splits)

lemma parse_inserted_row:
  assumes "parse_columns (column_texts (insert_values r now)) = Inr r'"
    and "unat (game_id r) < 2 ^ 63"
  shows "timestamp r' = (if timestamp r = 0 then now else timestamp r)
       \<and> game_id r' = game_id r \<and> seq r' = seq r
       \<and> machine r' = machine r \<and> content r' = content r"
proof -
  define T where "T = (if timestamp r = 0 then now else timestamp r)"
  have g: "unat (game_id r) < 9223372036854775808"
    using assms(2) by simp
  have q: "stoi (to_string_int (sint (seq r))) = Inr (sint (seq r))"
    using sint_ge [of "seq r"] sint_lt [of "seq r"] by (simp add: stoi_to_string_int)
  from assms(1) have
    "timestamp r' = word_of_nat (unat T) \<and> game_id r' = word_of_nat (unat (game_id r))
     \<and> seq r' = word_of_int (sint (seq r)) \<and> machine r' = machine r \<and> content r' = content r"
    unfolding column_texts_def insert_values_def T_def [symmetric]
    by (auto simp: g q stoi_to_string split: if_splits)
  then show ?thesis
    by (simp add: T_def)
qed

section \<open>C1: the write lock is asked for under the sampler's own shared hold\<close>

lemma refresh_after_GetSampler:
  "\<exists>s'. table_read_recent 1000 (snd (GetSampler True now one_record_store)) = Inr (True, s')
      \<and> get_recent_load s' = [row_record (insert_values (stamped 7) 5)]
      \<and> rw_lock s' = [Read_shared_lock, Write_lock, Write_unlock]"
proof -
  define s where "s = snd (GetSampler True now one_record_store)"
  have s: "s = fresh_store\<lparr>db := (db fresh_store)\<lparr>table_rows := Some [insert_values (stamped 7) 5]\<rparr>,
      rw_lock := [Read_shared_lock]\<rparr>"
    by (simp add: s_def snd_GetSampler_elided one_record_store_eq fresh_store_def)
  have t: "two_slots s" "\<not> alt_mutex s" "table_rows (db s) = Some [insert_values (stamped 7) 5]"
    "fault (db s) = None" "rw_lock s = [Read_shared_lock]"
    by (simp_all add: s two_slots_def fresh_store_def)
  have l: "loadable_row (insert_values (stamped 7) 5)"
    by (rule loadable_stamped) simp_all
  from refresh_single_row [OF t(1-4) l] show ?thesis
    unfolding s_def [symmetric] by (simp add: t(5))
qed

text \<open>
  On every buffer that the constructor has made, the first \<open>sample()\<close> of a Sampler from
  \<open>GetSampler\<close>, if it returns, has asked for the write lock under that Sampler's hold.
\<close>

lemma first_sample_calls:
  assumes "new_SharedRWBuffer fl name verb = Inr s0" and "sql_identifier name"
    and "sample (fst (GetSampler True now s0)) (snd (GetSampler True now s0)) = Inr (x, smp', s2)"
  shows "rw_lock s2 = [Read_shared_lock, Write_lock, Write_unlock]"
proof -
  define s1 where "s1 = snd (GetSampler True now s0)"
  from new_SharedRWBuffer_two_slots [OF assms(1,2)]
  have s1: "two_slots s1" "rw_lock s1 = [Read_shared_lock]" "get_recent_load s1 = []"
    by (simp_all add: s1_def snd_GetSampler_elided two_slots_def get_recent_load_def)
  from sample_Inr_D [OF assms(3) [folded s1_def]] s1(3)
  obtain ok where "table_read_recent 1000 s1 = Inr (ok, s2)"
    by auto
  from refresh_calls [OF s1(1) this] s1(2) show ?thesis
    by simp
qed

text \<open>
  C1. The claim is that a thread never holds a shared hold on \<open>rw_lock_\<close> at the moment
  it asks for the exclusive hold. The code does otherwise. On a store with one record, a
  Sampler obtained from \<open>GetSampler\<close> has taken the shared lock and finds the active
  buffer empty; its first \<open>sample()\<close> refreshes, and the calls the thread has made on the
  lock are then \<open>read_shared_lock\<close>, \<open>write_lock\<close>, \<open>write_unlock\<close>: the exclusive hold
  is asked for while the shared hold of the same thread lasts.
\<close>

theorem sample_write_lock_under_shared_hold:
  "get_recent_load (snd (GetSampler True 1500000000123 one_record_store)) = []
   \<and> rw_lock (snd (GetSampler True 1500000000123 one_record_store)) = [Read_shared_lock]
   \<and> \<not> isl (sample (fst (GetSampler True 1500000000123 one_record_store))
                    (snd (GetSampler True 1500000000123 one_record_store)))
   \<and> rw_lock (snd (snd (projr (sample (fst (GetSampler True 1500000000123 one_record_store))
                                       (snd (GetSampler True 1500000000123 one_record_store))))))
       = [Read_shared_lock, Write_lock, Write_unlock]
   \<and> write_lock_under_shared_hold 0 [Read_shared_lock, Write_lock, Write_unlock]"
proof -
  define s where "s = snd (GetSampler True 1500000000123 one_record_store)"
  define smp where "smp = fst (GetSampler True 1500000000123 one_record_store)"
  have g: "get_recent_load s = []" "rw_lock s = [Read_shared_lock]"
    by (simp_all add: s_def snd_GetSampler_elided get_recent_load_def one_record_store_eq
        fresh_store_def)
  from refresh_after_GetSampler [of 1500000000123] obtain s' where
    s': "table_read_recent 1000 s = Inr (True, s')"
      "get_recent_load s' = [row_record (insert_values (stamped 7) 5)]"
      "rw_lock s' = [Read_shared_lock, Write_lock, Write_unlock]"
    unfolding s_def by blast
  from sample_single [OF g(1) s'(1,2), of smp]
  have "\<not> isl (sample smp s) \<and>
      rw_lock (snd (snd (projr (sample smp s)))) = [Read_shared_lock, Write_lock, Write_unlock]"
    by (simp add: s'(3))
  then show ?thesis
    using g by (simp add: s_def smp_def)
qed

section \<open>C2: sampling an empty store\<close>

text \<open>
  C2. The claim is that \<open>sample()\<close> reports a defined failure when the active buffer is
  empty and the refresh loads nothing. The code has no such case. On the buffer that the
  constructor makes over a new database file, the refresh inside \<open>sample()\<close> loads no
  record and returns, and the next statement is \<open>rng_() % loaded->size()\<close> with size 0.
\<close>

theorem sample_empty_store_modulus_by_zero:
  "new_SharedRWBuffer (Some empty_file) ''t'' False = Inr fresh_store
   \<and> sample (fst (GetSampler True 1500000000123 fresh_store))
             (snd (GetSampler True 1500000000123 fresh_store)) = Inl Modulus_by_zero"
proof -
  define s where "s = snd (GetSampler True 1500000000123 fresh_store)"
  have s: "s = fresh_store\<lparr>rw_lock := [Read_shared_lock]\<rparr>"
    by (simp add: s_def snd_GetSampler_elided fresh_store_def)
  have t: "two_slots s" "\<not> alt_mutex s" "get_recent_load s = []"
    by (simp_all add: s two_slots_def get_recent_load_def fresh_store_def)
  have e: "sqlite3_exec (Select_recent 1000) (db s) = (SQLITE_OK, [], db s)"
    by (simp add: s fresh_store_def limit_def order_by_time_desc_def)
  have p: "map parse_columns [] = map Inr []"
    by simp
  from table_read_recent_loaded [OF t(1,2) e p] obtain s' where
    "table_read_recent 1000 s = Inr (True, s')" "get_recent_load s' = []"
    by auto
  from sample_still_empty [OF t(3) this]
  show ?thesis
    by (simp add: s_def new_SharedRWBuffer_empty_file)
qed

section \<open>C3: a refresh whose load fails\<close>

text \<open>
  C3, as the code has it. \<open>table_read_recent\<close> calls \<open>cb_save_end\<close> whatever the load
  returned. When the load fails, the call returns false and sets the last error, and the
  staging slot is committed all the same: \<open>curr_idx_\<close> moves to it, and the active buffer
  is now the records handed over before the failure. The buffer that was active keeps its
  contents, in the slot that is staging from then on; the database is as before.
\<close>

theorem failed_refresh_commits_staging:
  assumes "two_slots s" and "table_read_recent n s = Inr (False, s')"
  shows "curr_idx s' = int (alt_idx s) \<and> curr_idx s' \<noteq> curr_idx s
       \<and> recent_loaded s' ! nat (curr_idx s) = get_recent_load s
       \<and> map Inr (get_recent_load s') =
           map parse_columns (fst (snd (sqlite3_exec (Select_recent n) (db s))))
       \<and> db s' = db s \<and> last_err s' \<noteq> None"
proof -
  obtain rc texts d where e: "sqlite3_exec (Select_recent n) (db s) = (rc, texts, d)"
    by (cases "sqlite3_exec (Select_recent n) (db s)")
  from table_read_recent_Inr_D [OF assms(2)] e obtain rs where
    m: "\<not> alt_mutex s" and p: "map parse_columns texts = map Inr rs"
    by auto
  from table_read_recent_loaded [OF assms(1) m e p] assms(2)
  show ?thesis
    using p e by auto
qed

lemma refresh_failing_store:
  "\<exists>s'. table_read_recent 1000 failing_store = Inr (False, s')
      \<and> get_recent_load s' = [row_record (insert_values (stamped 300) 0)]
      \<and> curr_idx s' = 1"
proof -
  have t: "two_slots failing_store" "\<not> alt_mutex failing_store" "alt_idx failing_store = 1"
    by (simp_all add: two_slots_def alt_idx_def failing_store_def scenario_store_def fresh_store_def)
  have d: "db failing_store =
      \<lparr>table_rows = Some scenario_rows, index_names = [''idx_pri'', ''idx_reward''], fault = Some 1\<rparr>"
    by (simp add: failing_store_def scenario_store_def fresh_store_def)
  have e: "sqlite3_exec (Select_recent 1000) (db failing_store) =
      (SQLITE_IOERR, [column_texts (insert_values (stamped 300) 0)], db failing_store)"
    unfolding d by (simp add: limit_def order_scenario_rows)
  have p: "map parse_columns [column_texts (insert_values (stamped 300) 0)] =
      map Inr [row_record (insert_values (stamped 300) 0)]"
    by (simp add: parse_loadable_row loadable_stamped)
  from table_read_recent_loaded [OF t(1,2) e p] show ?thesis
    by (auto simp: t(3))
qed

text \<open>
  The claim as it was stated fails on the table with timestamps 100, 300 and 200 when the
  file gives out after one row: the buffer with the records 200 and 100 was active at
  index 0; after the failed refresh the index is 1 and the active buffer holds the record
  300 alone.
\<close>

theorem failed_refresh_counterexample:
  "\<not> isl (table_read_recent 1000 failing_store)
   \<and> fst (projr (table_read_recent 1000 failing_store)) = False
   \<and> curr_idx failing_store = 0
   \<and> curr_idx (snd (projr (table_read_recent 1000 failing_store))) = 1
   \<and> map timestamp (get_recent_load failing_store) = [200, 100]
   \<and> map timestamp (get_recent_load (snd (projr (table_read_recent 1000 failing_store)))) = [300]"
proof -
  from refresh_failing_store obtain s' where
    s': "table_read_recent 1000 failing_store = Inr (False, s')"
      "get_recent_load s' = [row_record (insert_values (stamped 300) 0)]" "curr_idx s' = 1"
    by blast
  have "curr_idx failing_store = 0"
    "get_recent_load failing_store =
       [row_record (insert_values (stamped 200) 0), row_record (insert_values (stamped 100) 0)]"
    by (simp_all add: failing_store_def scenario_store_def fresh_store_def get_recent_load_def)
  then show ?thesis
    by (simp add: s' timestamp_row_record_stamped)
qed

theorem failed_refresh_commits_staging_witness:
  "two_slots failing_store
   \<and> table_read_recent 1000 failing_store =
       Inr (False, snd (projr (table_read_recent 1000 failing_store)))
   \<and> curr_idx (snd (projr (table_read_recent 1000 failing_store))) = 1
   \<and> curr_idx failing_store = 0
   \<and> recent_loaded (snd (projr (table_read_recent 1000 failing_store))) ! 0
       = get_recent_load failing_store
   \<and> last_err (snd (projr (table_read_recent 1000 failing_store))) \<noteq> None"
proof -
  from refresh_failing_store obtain s' where
    s': "table_read_recent 1000 failing_store = Inr (False, s')"
    by blast
  have t: "two_slots failing_store" "alt_idx failing_store = 1" "curr_idx failing_store = 0"
    by (simp_all add: two_slots_def alt_idx_def failing_store_def scenario_store_def fresh_store_def)
  show ?thesis
    using failed_refresh_commits_staging [OF t(1) s'] t by (simp add: s')
qed

section \<open>C5: locks and unlocks of a Sampler\<close>

text \<open>
  C5. The claim is that every Sampler releases its shared hold exactly once, so that the
  unlocks on the lock equal the locks, also for the Sampler that \<open>GetSampler\<close> constructs
  and moves. The move constructor takes no hold and leaves the source as it was, and the
  destructor of each of the two objects unlocks: when the temporary of \<open>GetSampler\<close> is
  moved, one \<open>read_shared_lock\<close> is followed by two \<open>read_shared_unlock\<close> by the time the
  result is destroyed. Only when the result is built in place do the calls pair up.
\<close>

theorem moved_sampler_unlocks_twice:
  "rw_lock (delete_Sampler (fst (GetSampler False now s)) (snd (GetSampler False now s)))
     = rw_lock s @ [Read_shared_lock, Read_shared_unlock, Read_shared_unlock]
   \<and> calls Read_shared_lock
        (rw_lock (delete_Sampler (fst (GetSampler False now s)) (snd (GetSampler False now s))))
       = calls Read_shared_lock (rw_lock s) + 1
   \<and> calls Read_shared_unlock
        (rw_lock (delete_Sampler (fst (GetSampler False now s)) (snd (GetSampler False now s))))
       = calls Read_shared_unlock (rw_lock s) + 2
   \<and> rw_lock (delete_Sampler (fst (GetSampler True now s)) (snd (GetSampler True now s)))
     = rw_lock s @ [Read_shared_lock, Read_shared_unlock]"
  by (simp add: GetSampler_def new_Sampler_def move_Sampler_def delete_Sampler_def calls_def)

section \<open>C6: what a refresh loads, and in which order\<close>




text \<open>
  Keys of different length are compared as text: after appending timestamp 99 and then
  timestamp 100, a load of one record returns the record 99.
\<close>

lemma keys_of_unequal_length_compare_as_text:
  "map TIME (the (table_rows (db mixed_width_store))) = [''99'', ''100'']
   \<and> \<not> isl (table_read_recent 1 mixed_width_store)
   \<and> fst (projr (table_read_recent 1 mixed_width_store)) = True
   \<and> map timestamp (get_recent_load (snd (projr (table_read_recent 1 mixed_width_store)))) = [99]"
proof -
  have t: "two_slots mixed_width_store" "\<not> alt_mutex mixed_width_store"
    by (simp_all add: mixed_width_store_eq two_slots_def fresh_store_def)
  have o: "order_by_time_desc [insert_values (stamped 99) 0, insert_values (stamped 100) 0]
      = [insert_values (stamped 99) 0, insert_values (stamped 100) 0]"
    by (simp add: order_by_time_desc_def TIME_stamped)
  have e: "sqlite3_exec (Select_recent 1) (db mixed_width_store) =
      (SQLITE_OK, [column_texts (insert_values (stamped 99) 0)], db mixed_width_store)"
    by (simp add: mixed_width_store_eq fresh_store_def limit_def o)
  have p: "map parse_columns [column_texts (insert_values (stamped 99) 0)] =
      map Inr [row_record (insert_values (stamped 99) 0)]"
    by (simp add: parse_loadable_row loadable_stamped)
  from table_read_recent_loaded [OF t e p] obtain s' where
    s': "table_read_recent 1 mixed_width_store = Inr (True, s')"
      "get_recent_load s' = [row_record (insert_values (stamped 99) 0)]"
    by auto
  have "map TIME (the (table_rows (db mixed_width_store))) = [''99'', ''100'']"
    by (simp add: mixed_width_store_eq fresh_store_def TIME_stamped)
  then show ?thesis
    by (simp add: s' timestamp_row_record_stamped)
qed

section \<open>C7: a record appended and loaded again\<close>

text \<open>
  Where the numbers stay within \<open>int\<close> the record comes back. Let \<open>machine\<close> and
  \<open>content\<close> hold no double quote and no NUL, and let the game id be below \<open>2^63\<close>.
  After a successful \<open>Insert\<close> and a successful refresh that is not cut short by its
  limit, the active buffer holds a record with the game id, sequence number, machine and
  content of the inserted one, and with its timestamp, or the clock's milliseconds when
  it was given with timestamp 0; and while the buffer has fewer than \<open>2^31\<close> records,
  \<open>sample()\<close> returns one of its records.
\<close>

lemma inserted_record_is_loaded:
  assumes "two_slots s"
    and "plain_text (machine r)" and "plain_text (content r)"
    and "unat (game_id r) < 2 ^ 63"
    and "Insert r now s = (True, s1)"
    and "table_rows (db s1) = Some rows"
    and "n < 0 \<or> int (length rows) \<le> n"
    and "table_read_recent n s1 = Inr (True, s2)"
  shows "(\<exists>r'\<in>set (get_recent_load s2).
            timestamp r' = (if timestamp r = 0 then now else timestamp r)
          \<and> game_id r' = game_id r \<and> seq r' = seq r
          \<and> machine r' = machine r \<and> content r' = content r)
       \<and> (length (get_recent_load s2) < 2 ^ 31 \<longrightarrow>
            (\<exists>x. sample smp s2 = Inr (x, smp\<lparr>rng := snd (mt19937_next (rng smp))\<rparr>, s2)
               \<and> x \<in> set (get_recent_load s2)))"
proof -
  from assms(5) obtain rows0 where rows0: "table_rows (db s) = Some rows0"
    by (cases "table_rows (db s)") (simp_all add: Insert_plain [OF assms(2,3)])
  from assms(5) rows0 have s1:
    "s1 = s\<lparr>db := (db s)\<lparr>table_rows := Some (rows0 @ [insert_values r now])\<rparr>, last_err := None\<rparr>"
    "fault (db s) = None"
    by (auto simp: Insert_plain [OF assms(2,3)] split: if_splits)
  have rows: "rows = rows0 @ [insert_values r now]"
    using assms(6) by (simp add: s1(1))
  have t1: "two_slots s1"
    using assms(1) by (simp add: s1(1) two_slots_def)
  have e: "sqlite3_exec (Select_recent n) (db s1) =
      (SQLITE_OK, map column_texts (order_by_time_desc rows), db s1)"
    using assms(6) s1(2) limit_all [of n "order_by_time_desc rows"] assms(7)
    by (simp add: s1(1) order_by_time_desc_def)
  from table_read_recent_Inr_D [OF assms(8)] e obtain rs where
    m: "\<not> alt_mutex s1" and p: "map parse_columns (map column_texts (order_by_time_desc rows)) = map Inr rs"
    by auto
  from table_read_recent_loaded [OF t1 m e p] assms(8) have l: "get_recent_load s2 = rs"
    by auto
  have "insert_values r now \<in> set (order_by_time_desc rows)"
    by (simp add: rows order_by_time_desc_def)
  then have "parse_columns (column_texts (insert_values r now))
      \<in> set (map parse_columns (map column_texts (order_by_time_desc rows)))"
    by simp
  then obtain r' where r': "r' \<in> set rs" "parse_columns (column_texts (insert_values r now)) = Inr r'"
    unfolding p by auto
  have 1: "\<exists>r'\<in>set (get_recent_load s2).
            timestamp r' = (if timestamp r = 0 then now else timestamp r)
          \<and> game_id r' = game_id r \<and> seq r' = seq r
          \<and> machine r' = machine r \<and> content r' = content r"
    using parse_inserted_row [OF r'(2) assms(4)] r'(1) l by blast
  then have "get_recent_load s2 \<noteq> []"
    by auto
  from sample_nonempty [OF this] 1 show ?thesis
    by blast
qed

text \<open>
  C7. The claim is that a record, once \<open>Insert\<close> has succeeded and a refresh has run,
  can be drawn by \<open>sample()\<close> with the field values it was appended with. The code
  writes the timestamp as the decimal text of a \<open>uint64_t\<close>, by default the clock's
  milliseconds, and reads it back with \<open>stoi\<close>, which is for \<open>int\<close>. A record appended
  at a clock reading of today's size is stored, but the refresh ends in \<open>out_of_range\<close>
  thrown in the callback, and so does the \<open>sample()\<close> that refreshes: the record cannot
  be drawn.
\<close>

theorem clock_stamped_record_is_not_read_back:
  "Insert Record_default 1500000000123 fresh_store = (True, wall_clock_store)
   \<and> table_read_recent 1000 wall_clock_store = Inl Out_of_range
   \<and> get_recent_load (snd (GetSampler True 1500000000999 wall_clock_store)) = []
   \<and> sample (fst (GetSampler True 1500000000999 wall_clock_store))
             (snd (GetSampler True 1500000000999 wall_clock_store)) = Inl Out_of_range"
proof -
  have "stoi (to_string (unat (1500000000123 :: 64 word))) = Inl Out_of_range"
    by (simp add: stoi_to_string)
  then have p: "parse_columns (column_texts (insert_values Record_default 1500000000123))
      = Inl Out_of_range"
    by (simp add: column_texts_def insert_values_def Record_default_def)
  have i: "Insert Record_default 1500000000123 fresh_store = (True, wall_clock_store)"
    by (simp add: wall_clock_store_eq Insert_fresh plain_default)
  have w: "\<not> alt_mutex wall_clock_store"
    "table_rows (db wall_clock_store) = Some [insert_values Record_default 1500000000123]"
    "fault (db wall_clock_store) = None"
    by (simp_all add: wall_clock_store_eq fresh_store_def)
  define s where "s = snd (GetSampler True 1500000000999 wall_clock_store)"
  have s: "\<not> alt_mutex s"
    "table_rows (db s) = Some [insert_values Record_default 1500000000123]"
    "fault (db s) = None" "get_recent_load s = []"
    by (simp_all add: s_def snd_GetSampler_elided wall_clock_store_eq fresh_store_def
        get_recent_load_def)
  have "sample (fst (GetSampler True 1500000000999 wall_clock_store)) s = Inl Out_of_range"
    by (simp add: sample_def s(4) refresh_throws [OF s(1-3) p])
  then show ?thesis
    using i refresh_throws [OF w p] s(4) by (simp add: s_def)
qed

section \<open>C8: two appends in one millisecond\<close>

text \<open>
  C8, as the code has it. TIME is the primary key, and a record given with timestamp 0
  gets the clock's millisecond as its key. Of two such records appended in the same
  millisecond, with texts free of double quotes and NUL and with finite priority and
  reward, the first \<open>Insert\<close> that succeeds adds its row; the second returns false with
  a constraint violation as the last error, and the table is left as it was.
\<close>

theorem same_millisecond_second_insert_fails:
  assumes "timestamp r1 = 0" and "timestamp r2 = 0"
    and "plain_text (machine r1)" and "plain_text (content r1)"
    and "plain_text (machine r2)" and "plain_text (content r2)"
    and "float_is_finite (pri r2)" and "float_is_finite (reward r2)"
    and "Insert r1 now s = (True, s1)"
  shows "\<exists>rows. table_rows (db s) = Some rows
           \<and> table_rows (db s1) = Some (rows @ [insert_values r1 now])
           \<and> Insert r2 now s1 = (False, s1\<lparr>last_err := Some SQLITE_CONSTRAINT\<rparr>)"
proof -
  from assms(9) obtain rows where rows: "table_rows (db s) = Some rows"
    by (cases "table_rows (db s)") (simp_all add: Insert_plain [OF assms(3,4)])
  from assms(9) rows have s1:
    "s1 = s\<lparr>db := (db s)\<lparr>table_rows := Some (rows @ [insert_values r1 now])\<rparr>, last_err := None\<rparr>"
    "fault (db s) = None"
    by (auto simp: Insert_plain [OF assms(3,4)] split: if_splits)
  have k: "TIME (insert_values r2 now) = TIME (insert_values r1 now)"
    using assms(1,2) by (simp add: insert_values_def)
  have "Insert r2 now s1 = (False, s1\<lparr>last_err := Some SQLITE_CONSTRAINT\<rparr>)"
    using assms(7,8) s1(2) by (simp add: Insert_plain [OF assms(5,6)] s1(1) k)
  with rows s1(1) show ?thesis
    by simp
qed

lemma plain_empty: "plain_text []" "plain_text ''a''" "plain_text ''b''"
  by (simp_all add: plain_text_def)

lemma Insert_first_fresh:
  "Insert (Record_default\<lparr>machine := ''a''\<rparr>) 1500000000123 fresh_store =
     (True, fresh_store\<lparr>db := (db fresh_store)\<lparr>table_rows :=
        Some [insert_values (Record_default\<lparr>machine := ''a''\<rparr>) 1500000000123]\<rparr>\<rparr>)"
  by (simp add: Insert_plain plain_empty Record_default_def float_is_finite_def fresh_store_def)

text \<open>
  The claim as it was stated fails on a new store: of two records appended at the same
  clock reading the second is refused, and the table holds the first alone.
\<close>

theorem same_millisecond_counterexample:
  "timestamp (Record_default\<lparr>machine := ''a''\<rparr>) = 0
   \<and> timestamp (Record_default\<lparr>machine := ''b''\<rparr>) = 0
   \<and> fst (Insert (Record_default\<lparr>machine := ''a''\<rparr>) 1500000000123 fresh_store) = True
   \<and> fst (Insert (Record_default\<lparr>machine := ''b''\<rparr>) 1500000000123
           (snd (Insert (Record_default\<lparr>machine := ''a''\<rparr>) 1500000000123 fresh_store))) = False
   \<and> map MACHINE (the (table_rows (db (snd (Insert (Record_default\<lparr>machine := ''b''\<rparr>) 1500000000123
           (snd (Insert (Record_default\<lparr>machine := ''a''\<rparr>) 1500000000123 fresh_store))))))) = [''a'']"
  unfolding Insert_first_fresh
  by (simp add: Insert_plain plain_empty Record_default_def float_is_finite_def fresh_store_def
      insert_values_def)

theorem same_millisecond_second_insert_fails_witness:
  "Insert (Record_default\<lparr>machine := ''a''\<rparr>) 1500000000123 fresh_store =
     (True, snd (Insert (Record_default\<lparr>machine := ''a''\<rparr>) 1500000000123 fresh_store))
   \<and> Insert (Record_default\<lparr>machine := ''b''\<rparr>) 1500000000123
        (snd (Insert (Record_default\<lparr>machine := ''a''\<rparr>) 1500000000123 fresh_store))
      = (False, (snd (Insert (Record_default\<lparr>machine := ''a''\<rparr>) 1500000000123 fresh_store))
                  \<lparr>last_err := Some SQLITE_CONSTRAINT\<rparr>)"
proof -
  have i: "Insert (Record_default\<lparr>machine := ''a''\<rparr>) 1500000000123 fresh_store =
     (True, snd (Insert (Record_default\<lparr>machine := ''a''\<rparr>) 1500000000123 fresh_store))"
    by (simp add: Insert_first_fresh)
  have h: "timestamp (Record_default\<lparr>machine := ''a''\<rparr>) = 0"
    "timestamp (Record_default\<lparr>machine := ''b''\<rparr>) = 0"
    "plain_text (machine (Record_default\<lparr>machine := ''a''\<rparr>))"
    "plain_text (content (Record_default\<lparr>machine := ''a''\<rparr>))"
    "plain_text (machine (Record_default\<lparr>machine := ''b''\<rparr>))"
    "plain_text (content (Record_default\<lparr>machine := ''b''\<rparr>))"
    "float_is_finite (pri (Record_default\<lparr>machine := ''b''\<rparr>))"
    "float_is_finite (reward (Record_default\<lparr>machine := ''b''\<rparr>))"
    by (simp_all add: Record_default_def plain_text_def float_is_finite_def)
  from same_millisecond_second_insert_fails [OF h i] i show ?thesis
    by auto
qed

section \<open>C9: the seed of a Sampler's generator\<close>

lemma fst_GetSampler:
  "fst (GetSampler e now s) = \<lparr>rng = mt19937_seed (word_of_nat (unat now div 1000))\<rparr>"
  by (simp add: GetSampler_def new_Sampler_def move_Sampler_def)

text \<open>
  C9, as the code has it. Each Sampler has a generator of its own, seeded at construction
  with \<open>time(NULL)\<close>, the clock in whole seconds. Two Samplers constructed within the same
  second are equal in their generators and return the same from \<open>sample()\<close> on the same
  buffer; two Samplers constructed in seconds that differ modulo \<open>2^32\<close> have different
  generators.
\<close>

theorem samplers_seeded_by_the_second:
  "(unat t1 div 1000 = unat t2 div 1000 \<longrightarrow>
      fst (GetSampler e1 t1 sa) = fst (GetSampler e2 t2 sb)
      \<and> sample (fst (GetSampler e1 t1 sa)) s = sample (fst (GetSampler e2 t2 sb)) s)
   \<and> (unat t1 div 1000 mod 2 ^ 32 \<noteq> unat t2 div 1000 mod 2 ^ 32 \<longrightarrow>
      rng (fst (GetSampler e1 t1 sa)) \<noteq> rng (fst (GetSampler e2 t2 sb)))"
proof -
  have "(word_of_nat m :: 32 word) \<noteq> word_of_nat n" if "m mod 2 ^ 32 \<noteq> n mod 2 ^ 32" for m n
    using that by (simp add: word_of_nat_eq_iff take_bit_eq_mod)
  then show ?thesis
    by (auto simp: fst_GetSampler mt19937_seed_def)
qed

text \<open>
  The claim as it was stated fails for two Samplers constructed 876 milliseconds apart
  within one second: their generators are equal, and so is what they sample.
\<close>

theorem samplers_of_one_second_counterexample:
  "fst (GetSampler True 1500000000123 fresh_store)
     = fst (GetSampler True 1500000000999 (snd (GetSampler True 1500000000123 fresh_store)))
   \<and> sample (fst (GetSampler True 1500000000123 fresh_store)) loaded_store
     = sample (fst (GetSampler True 1500000000999 (snd (GetSampler True 1500000000123 fresh_store))))
         loaded_store"
  by (simp add: fst_GetSampler)

theorem samplers_seeded_by_the_second_witness:
  "unat (1500000000123 :: 64 word) div 1000 = unat (1500000000999 :: 64 word) div 1000
   \<and> fst (GetSampler True 1500000000123 fresh_store) = fst (GetSampler False 1500000000999 loaded_store)
   \<and> sample (fst (GetSampler True 1500000000123 fresh_store)) loaded_store
       = sample (fst (GetSampler False 1500000000999 loaded_store)) loaded_store
   \<and> unat (1500000000123 :: 64 word) div 1000 mod 2 ^ 32 \<noteq> unat (1500000001000 :: 64 word) div 1000 mod 2 ^ 32
   \<and> rng (fst (GetSampler True 1500000000123 fresh_store))
       \<noteq> rng (fst (GetSampler True 1500000001000 fresh_store))"
proof -
  have a: "unat (1500000000123 :: 64 word) div 1000 = unat (1500000000999 :: 64 word) div 1000"
    by simp
  have b: "unat (1500000000123 :: 64 word) div 1000 mod 2 ^ 32
      \<noteq> unat (1500000001000 :: 64 word) div 1000 mod 2 ^ 32"
    by simp
  show ?thesis
    using samplers_seeded_by_the_second
        [of 1500000000123 1500000000999 True fresh_store False loaded_store loaded_store]
      samplers_seeded_by_the_second
        [of 1500000000123 1500000001000 True fresh_store True fresh_store loaded_store]
      a b
    by blast
qed

section \<open>C10: refresh writes stay in the staging slot\<close>

text \<open>
  C10. With the two slots of the constructor: \<open>cb_save_start\<close> (when the refresh mutex
  is free) empties the slot that \<open>curr_idx_\<close> does not point to, and \<open>cb_save\<close> appends the
  record to that slot; both leave \<open>curr_idx_\<close> and the contents of the active buffer as
  they were. \<open>cb_save_end\<close> changes no buffer: it only moves \<open>curr_idx_\<close> to the other
  slot.
\<close>

theorem refresh_writes_stay_in_staging:
  assumes "two_slots s"
  shows "(\<not> alt_mutex s \<longrightarrow>
            (\<exists>s'. cb_save_start s = Inr s' \<and> curr_idx s' = curr_idx s
               \<and> get_recent_load s' = get_recent_load s \<and> recent_loaded s' ! alt_idx s = []))
         \<and> alt_idx s \<noteq> nat (curr_idx s)
         \<and> curr_idx (snd (cb_save r s)) = curr_idx s
         \<and> get_recent_load (snd (cb_save r s)) = get_recent_load s
         \<and> recent_loaded (snd (cb_save r s)) ! alt_idx s = recent_loaded s ! alt_idx s @ [r]
         \<and> recent_loaded (cb_save_end s) = recent_loaded s
         \<and> curr_idx (cb_save_end s) = int (alt_idx s)"
proof -
  have "\<exists>s'. cb_save_start s = Inr s' \<and> curr_idx s' = curr_idx s
               \<and> get_recent_load s' = get_recent_load s \<and> recent_loaded s' ! alt_idx s = []"
    if "\<not> alt_mutex s"
  proof -
    from cb_save_start_effect [OF assms that] obtain s' where
      s': "cb_save_start s = Inr s'" "curr_idx s' = curr_idx s"
        "get_recent_load s' = get_recent_load s" "recent_loaded s' ! alt_idx s' = []"
        "two_slots s'"
      by blast
    have "alt_idx s' = alt_idx s"
      using s'(2,5) assms by (simp add: alt_idx_two_slots)
    with s' show ?thesis by auto
  qed
  then show ?thesis
    using cb_save_effect [OF assms, of r] cb_save_end_effect [OF assms] alt_idx_other [OF assms]
    by simp
qed

theorem refresh_writes_stay_in_staging_witness:
  "two_slots loaded_store \<and> \<not> alt_mutex loaded_store
   \<and> get_recent_load loaded_store = [stamped 100, stamped 200]
   \<and> (\<exists>s'. cb_save_start loaded_store = Inr s' \<and> curr_idx s' = 0
          \<and> get_recent_load s' = [stamped 100, stamped 200] \<and> recent_loaded s' ! 1 = [])
   \<and> get_recent_load (snd (cb_save (stamped 7) loaded_store)) = [stamped 100, stamped 200]
   \<and> recent_loaded (snd (cb_save (stamped 7) loaded_store)) ! 1 = [stamped 50, stamped 7]
   \<and> recent_loaded (cb_save_end loaded_store) = recent_loaded loaded_store
   \<and> curr_idx (cb_save_end loaded_store) = 1"
proof -
  have t: "two_slots loaded_store"
    by (simp add: two_slots_def loaded_store_def fresh_store_def)
  have a: "alt_idx loaded_store = 1" "\<not> alt_mutex loaded_store" "curr_idx loaded_store = 0"
    "get_recent_load loaded_store = [stamped 100, stamped 200]"
    "recent_loaded loaded_store ! 1 = [stamped 50]"
    by (simp_all add: alt_idx_def get_recent_load_def loaded_store_def fresh_store_def)
  show ?thesis
    using refresh_writes_stay_in_staging [OF t, of "stamped 7"] t a by simp
qed

end
